theory Spec2Isabelle
  imports Complex_Main "HOL-Library.Log_Nat"
begin

section \<open>Numbers and strings as the handlers use them\<close>

text \<open>
  A JavaScript string is a \<open>string\<close> of bytes (UTF-8). A field that may be absent is an
  \<open>option\<close>. \<open>falsy\<close> is JavaScript's \<open>!v\<close> on a value that is either absent or a
  string.
\<close>

definition falsy :: "string option \<Rightarrow> bool" where
  "falsy v = (case v of None \<Rightarrow> True | Some s \<Rightarrow> s = [])"

text \<open>\<open>a || b\<close> on an optional string \<open>a\<close> and a string \<open>b\<close>.\<close>

definition or_else :: "string option \<Rightarrow> string \<Rightarrow> string" where
  "or_else v d = (case v of None \<Rightarrow> d | Some s \<Rightarrow> if s = [] then d else s)"

definition digit_char :: "nat \<Rightarrow> char" where
  "digit_char d = ''0123456789'' ! d"

text \<open>\<open>Number.prototype.toString\<close> and \<open>String(n)\<close> on a natural number.\<close>

fun nat_toString :: "nat \<Rightarrow> string" where
  "nat_toString n =
     (if n < 10 then [digit_char n] else nat_toString (n div 10) @ [digit_char (n mod 10)])"

declare nat_toString.simps [simp del]

definition int_toString :: "int \<Rightarrow> string" where
  "int_toString i = (if i < 0 then CHR ''-'' # nat_toString (nat (- i)) else nat_toString (nat i))"

text \<open>\<open>s.padStart(w, '0')\<close>: a string of length \<open>w\<close> or more is returned as it is.\<close>

definition padStart :: "nat \<Rightarrow> string \<Rightarrow> string" where
  "padStart w s = replicate (w - length s) CHR ''0'' @ s"

text \<open>\<open>s.slice(-2)\<close>: the last two characters, or all of \<open>s\<close> when it is shorter.\<close>

definition slice_last2 :: "string \<Rightarrow> string" where
  "slice_last2 s = drop (length s - 2) s"

text \<open>\<open>xs.join(', ')\<close>.\<close>

fun join_comma :: "string list \<Rightarrow> string" where
  "join_comma [] = []"
| "join_comma [x] = x"
| "join_comma (x # y # ys) = x @ '', '' @ join_comma (y # ys)"

text \<open>
  A \<open>Date\<close>, read through the three accessors the order model calls (\<open>getMonth\<close> counts
  from 0) and through its time value.
\<close>

record date =
  getFullYear :: int
  getMonth :: nat
  getDate :: nat
  getTime :: int

section \<open>JavaScript numbers\<close>

text \<open>
  Prices, quantities and totals are JavaScript numbers: IEEE 754 doubles. A finite double
  is the rational it stands for (the two zeros are one value: the handlers and the schema
  do not tell them apart), and there are the two infinities and NaN.
\<close>

datatype number = Num rat | PosInf | NegInf | NaN

definition pow2 :: "int \<Rightarrow> rat" where
  "pow2 e = (if 0 \<le> e then 2 ^ nat e else 1 / 2 ^ nat (- e))"

text \<open>The binary exponent of a positive rational: \<open>pow2 e \<le> a < pow2 (e + 1)\<close>.\<close>

definition exponent :: "rat \<Rightarrow> int" where
  "exponent a =
     (let k = bitlen (fst (quotient_of a)) - bitlen (snd (quotient_of a))
      in if pow2 k \<le> a then k else k - 1)"

text \<open>Rounding to the nearest integer, a tie to the even one.\<close>

definition round_half_even :: "rat \<Rightarrow> int" where
  "round_half_even x =
     (let f = \<lfloor>x\<rfloor>; d = x - of_int f
      in if d < 1 / 2 then f else if 1 / 2 < d then f + 1 else if even f then f else f + 1)"

text \<open>
  The double nearest to a rational (round to nearest, ties to even): 53 significant bits,
  the exponent not below -1022 (below it the doubles are evenly spaced), and an infinity
  when the rounded value reaches \<open>2 ^ 1024\<close>.
\<close>

definition round_double :: "rat \<Rightarrow> number" where
  "round_double x =
     (if x = 0 then Num 0
      else
        (let a = \<bar>x\<bar>;
             e = max (exponent a) (- 1022);
             ulp = pow2 (e - 52);
             m = round_half_even (a / ulp)
         in if 1024 \<le> e \<or> (e = 1023 \<and> 9007199254740992 \<le> m)
            then (if x < 0 then NegInf else PosInf)
            else Num (if x < 0 then - (of_int m * ulp) else of_int m * ulp)))"

definition sign_of :: "number \<Rightarrow> int" where
  "sign_of a =
     (case a of
        Num x \<Rightarrow> (if x < 0 then - 1 else if x = 0 then 0 else 1)
      | PosInf \<Rightarrow> 1
      | NegInf \<Rightarrow> - 1
      | NaN \<Rightarrow> 0)"

text \<open>\<open>a * b\<close>: the rounded product; an infinity times zero is NaN.\<close>

definition js_mul :: "number \<Rightarrow> number \<Rightarrow> number" where
  "js_mul a b =
     (if a = NaN \<or> b = NaN then NaN
      else
        (case (a, b) of
           (Num x, Num y) \<Rightarrow> round_double (x * y)
         | _ \<Rightarrow>
             (if sign_of a * sign_of b = 0 then NaN
              else if 0 < sign_of a * sign_of b then PosInf
              else NegInf)))"

text \<open>\<open>a + b\<close>: the rounded sum; the two infinities add up to NaN.\<close>

definition js_add :: "number \<Rightarrow> number \<Rightarrow> number" where
  "js_add a b =
     (if a = NaN \<or> b = NaN then NaN
      else
        (case (a, b) of
           (Num x, Num y) \<Rightarrow> round_double (x + y)
         | (PosInf, NegInf) \<Rightarrow> NaN
         | (NegInf, PosInf) \<Rightarrow> NaN
         | (PosInf, _) \<Rightarrow> PosInf
         | (_, PosInf) \<Rightarrow> PosInf
         | _ \<Rightarrow> NegInf))"

text \<open>\<open>a >= b\<close>, which is false when either is NaN.\<close>

definition js_ge :: "number \<Rightarrow> number \<Rightarrow> bool" where
  "js_ge a b =
     (case (a, b) of
        (NaN, _) \<Rightarrow> False
      | (_, NaN) \<Rightarrow> False
      | (Num x, Num y) \<Rightarrow> y \<le> x
      | (PosInf, _) \<Rightarrow> True
      | (_, NegInf) \<Rightarrow> True
      | _ \<Rightarrow> False)"

text \<open>\<open>!a\<close> on a number: zero and NaN are falsy.\<close>

definition falsy_number :: "number \<Rightarrow> bool" where
  "falsy_number a = (a = Num 0 \<or> a = NaN)"

text \<open>\<open>a || 0\<close>.\<close>

definition or_zero :: "number \<Rightarrow> number" where
  "or_zero a = (if falsy_number a then Num 0 else a)"

text \<open>
  An assignment to a path of type Number of a Mongoose document: NaN does not cast, and the
  path keeps the value it had.
\<close>

definition set_number :: "number \<Rightarrow> number \<Rightarrow> number" where
  "set_number old v = (if v = NaN then old else v)"

section \<open>The order model\<close>

record order_item =
  item_menuItemId :: string
  item_name :: string
  item_quantity :: number
  item_price :: number
  item_subtotal :: number

record address =
  street :: "string option"
  city :: "string option"
  landmark :: "string option"
  instructions :: "string option"

record order =
  order_id :: string
  orderNumber :: "string option"
  userId :: string
  customerId :: string
  customerName :: string
  customerPhone :: string
  customerEmail :: string
  items :: "order_item list"
  subtotal :: number
  total :: number
  orderType :: string
  deliveryAddress :: "address option"
  paymentMethod :: string
  paymentStatus :: string
  mpesaCheckoutId :: "string option"
  mpesaReceipt :: "string option"
  orderStatus :: string
  order_notes :: string
  createdAt :: date
  updatedAt :: date

text \<open>
  The template literal of the \<open>pre('validate')\<close> hook:
  \<open>ORD${year}${month}${day}${String(count + 1).padStart(4, '0')}\<close>.
\<close>

definition generateOrderNumber :: "date \<Rightarrow> nat \<Rightarrow> string" where
  "generateOrderNumber d count =
     (let year = slice_last2 (int_toString (getFullYear d));
          month = padStart 2 (nat_toString (getMonth d + 1));
          day = padStart 2 (nat_toString (getDate d))
      in ''ORD'' @ year @ month @ day @ padStart 4 (nat_toString (count + 1)))"

text \<open>\<open>orderSchema.pre('validate')\<close>: a number is generated only when the order has none.\<close>

definition pre_validate :: "date \<Rightarrow> nat \<Rightarrow> order \<Rightarrow> order" where
  "pre_validate now count this =
     (if falsy (orderNumber this)
      then this\<lparr>orderNumber := Some (generateOrderNumber now count)\<rparr>
      else this)"

text \<open>
  \<open>orderSchema.pre('save')\<close>: the totals are recomputed from the line items, in
  JavaScript's arithmetic: \<open>item.subtotal = item.quantity * item.price\<close>, then the
  \<open>reduce\<close> that adds the subtotals from the left, starting at 0, then
  \<open>this.total = this.subtotal\<close>.
\<close>

definition recompute_item :: "order_item \<Rightarrow> order_item" where
  "recompute_item item =
     item\<lparr>item_subtotal :=
       set_number (item_subtotal item) (js_mul (item_quantity item) (item_price item))\<rparr>"

definition sum_subtotals :: "order_item list \<Rightarrow> number" where
  "sum_subtotals its = foldl (\<lambda>sum item. js_add sum (item_subtotal item)) (Num 0) its"

definition pre_save :: "date \<Rightarrow> order \<Rightarrow> order" where
  "pre_save now this =
     (let this1 =
        (if items this \<noteq> []
         then (let its = map recompute_item (items this);
                   st = set_number (subtotal this) (sum_subtotals its)
               in this\<lparr>items := its, subtotal := st, total := set_number (total this) st\<rparr>)
         else this)
      in this1\<lparr>updatedAt := now\<rparr>)"


section \<open>Schema validation of an order\<close>

text \<open>
  A failed validator is recorded by its kind and its path (or, for the custom validator of
  \<open>items\<close>, by its message); the list stands for the \<open>errors\<close> of a ValidationError.
  A \<open>required\<close> string is a non-empty one; the numbers of the record are always present.
\<close>

datatype validator_error =
    Required string
  | Cast string
  | Min string
  | Enum string
  | Custom string string

definition orderTypes :: "string list" where
  "orderTypes = [''takeaway'', ''dine-in'', ''delivery'']"

definition paymentMethods :: "string list" where
  "paymentMethods = [''M-PESA'', ''Cash'', ''Card'']"

definition paymentStatuses :: "string list" where
  "paymentStatuses = [''Pending'', ''Paid'', ''Failed'', ''Refunded'']"

definition orderStatuses :: "string list" where
  "orderStatuses = [''Pending'', ''Confirmed'', ''Preparing'', ''Ready'', ''Out for Delivery'',
     ''Delivered'', ''Completed'', ''Cancelled'']"

definition check_required :: "string \<Rightarrow> string \<Rightarrow> validator_error list" where
  "check_required path v = (if v = [] then [Required path] else [])"

text \<open>
  A path of type Number with a \<open>min\<close>: NaN does not cast to a Number, and the validator
  passes a value \<open>v\<close> with \<open>v >= min\<close>.
\<close>

definition check_min :: "string \<Rightarrow> number \<Rightarrow> number \<Rightarrow> validator_error list" where
  "check_min path lo v =
     (if v = NaN then [Cast path] else if js_ge v lo then [] else [Min path])"

definition check_enum :: "string \<Rightarrow> string list \<Rightarrow> string \<Rightarrow> validator_error list" where
  "check_enum path vals v = (if v \<in> set vals then [] else [Enum path])"

definition check_required_enum :: "string \<Rightarrow> string list \<Rightarrow> string \<Rightarrow> validator_error list" where
  "check_required_enum path vals v =
     (if v = [] then [Required path] else check_enum path vals v)"

text \<open>\<open>orderItemSchema\<close>, for the item at index \<open>i\<close>.\<close>

definition validate_item :: "nat \<Rightarrow> order_item \<Rightarrow> validator_error list" where
  "validate_item i item =
     (let p = ''items.'' @ nat_toString i @ ''.''
      in check_required (p @ ''menuItemId'') (item_menuItemId item)
       @ check_required (p @ ''name'') (item_name item)
       @ check_min (p @ ''quantity'') (Num 1) (item_quantity item)
       @ check_min (p @ ''price'') (Num 0) (item_price item)
       @ check_min (p @ ''subtotal'') (Num 0) (item_subtotal item))"

definition validate_items :: "order_item list \<Rightarrow> validator_error list" where
  "validate_items its =
     (if its = [] then [Custom ''items'' ''Order must contain at least one item'']
      else concat (map (\<lambda>(i, item). validate_item i item) (enumerate 0 its)))"

text \<open>\<open>orderSchema\<close>: the validators of its paths, in the order of the schema.\<close>

definition validate_order :: "order \<Rightarrow> validator_error list" where
  "validate_order this =
     check_required ''customerName'' (customerName this)
   @ check_required ''customerPhone'' (customerPhone this)
   @ validate_items (items this)
   @ check_min ''subtotal'' (Num 0) (subtotal this)
   @ check_min ''total'' (Num 0) (total this)
   @ check_required_enum ''orderType'' orderTypes (orderType this)
   @ check_required_enum ''paymentMethod'' paymentMethods (paymentMethod this)
   @ check_enum ''paymentStatus'' paymentStatuses (paymentStatus this)
   @ check_enum ''orderStatus'' orderStatuses (orderStatus this)"

section \<open>The store and its collaborators\<close>

record customer =
  cust_id :: string
  cust_customerId :: "string option"
  cust_name :: string
  cust_email :: "string option"
  cust_phone :: string
  totalOrders :: number
  totalSpent :: number
  lastOrderDate :: "date option"

record menu_item =
  menu_id :: string
  menuId :: "string option"
  menu_name :: string
  category :: string
  menu_price :: number
  description :: string
  preparationTime :: number
  available :: bool
  image :: string

record notification =
  notif_title :: string
  notif_message :: string
  notif_type :: string
  notif_read :: bool
  notif_createdAt :: date

record store =
  customers :: "customer list"
  menu :: "menu_item list"
  orders :: "order list"
  notifications :: "notification list"

text \<open>What a handler can catch.\<close>

datatype error =
    ValidationError "validator_error list"
  | CastError
  | DuplicateKey
  | StorageError

text \<open>
  What a request does not decide: the clock, the ObjectId the driver gives a new document,
  the runtime's rendering of a number as text (\<open>toString\<close> in a template literal, and
  \<open>toLocaleString\<close>, which depends on the locale), and whether the write of the customer
  and the write of the notification go through (\<open>None\<close>) or throw.
\<close>

record env =
  now :: date
  new_id :: string
  number_toString :: "number \<Rightarrow> string"
  toLocaleString :: "number \<Rightarrow> string"
  customer_save_error :: "error option"
  notification_error :: "error option"

text \<open>
  An id as a request carries it: absent, a text that does not cast to an ObjectId (the
  empty text among them), or the ObjectId it casts to, written as the store writes it.
\<close>

datatype id_param = Missing | Malformed string | Oid string

definition falsy_id :: "id_param \<Rightarrow> bool" where
  "falsy_id p = (case p of Missing \<Rightarrow> True | Malformed t \<Rightarrow> t = [] | Oid i \<Rightarrow> False)"

definition id_text :: "id_param \<Rightarrow> string" where
  "id_text p = (case p of Missing \<Rightarrow> ''undefined'' | Malformed t \<Rightarrow> t | Oid i \<Rightarrow> i)"

text \<open>
  \<open>Model.findById\<close>: an absent id finds nothing, a text that does not cast throws a
  CastError, an ObjectId finds the document that has it.
\<close>

definition findById :: "('a \<Rightarrow> string) \<Rightarrow> 'a list \<Rightarrow> id_param \<Rightarrow> error + 'a option" where
  "findById key coll p =
     (case p of
        Missing \<Rightarrow> Inr None
      | Malformed t \<Rightarrow> Inl CastError
      | Oid i \<Rightarrow> Inr (find (\<lambda>d. key d = i) coll))"

text \<open>
  \<open>order.save()\<close>: the \<open>pre('validate')\<close> hook, the validation, the \<open>pre('save')\<close> hook,
  then the write, which the unique index on \<open>orderNumber\<close> (and on \<open>_id\<close>, for a new
  document) can refuse. \<open>isNew\<close> tells an insert from an update.
\<close>

definition Order_save :: "env \<Rightarrow> store \<Rightarrow> bool \<Rightarrow> order \<Rightarrow> error + (store \<times> order)" where
  "Order_save e s isNew this =
     (let this1 = pre_validate (now e) (length (orders s)) this;
          errs = validate_order this1
      in if errs \<noteq> [] then Inl (ValidationError errs)
         else
           (let this2 = pre_save (now e) this1
            in if list_ex (\<lambda>d. order_id d \<noteq> order_id this2 \<and> orderNumber d = orderNumber this2)
                    (orders s)
               then Inl DuplicateKey
               else if isNew
               then (if list_ex (\<lambda>d. order_id d = order_id this2) (orders s)
                     then Inl DuplicateKey
                     else Inr (s\<lparr>orders := orders s @ [this2]\<rparr>, this2))
               else Inr (s\<lparr>orders := map (\<lambda>d. if order_id d = order_id this2 then this2 else d)
                                        (orders s)\<rparr>, this2)))"

text \<open>
  \<open>customer.save()\<close>: the \<open>pre('save')\<close> hook gives a customer without a
  \<open>customerId\<close> the next one; the password hook does nothing when the password is
  untouched. Whether the validation and the write succeed is the environment's.
\<close>

definition Customer_save :: "env \<Rightarrow> store \<Rightarrow> customer \<Rightarrow> error + store" where
  "Customer_save e s this =
     (case customer_save_error e of
        Some err \<Rightarrow> Inl err
      | None \<Rightarrow>
          (let this1 =
             (if falsy (cust_customerId this)
              then this\<lparr>cust_customerId :=
                     Some (''CUST'' @ padStart 5 (nat_toString (length (customers s) + 1)))\<rparr>
              else this)
           in Inr (s\<lparr>customers := map (\<lambda>c. if cust_id c = cust_id this1 then this1 else c)
                                     (customers s)\<rparr>)))"

text \<open>
  Modelled from the spec: the Notification model (\<open>models/Notification\<close>) is not among
  the sources. The type of a notification is one of info, success, warning and error.
\<close>

definition notificationTypes :: "string list" where
  "notificationTypes = [''info'', ''success'', ''warning'', ''error'']"

text \<open>
  Modelled from the spec: \<open>Notification.create\<close> of the Notification model
  (\<open>models/Notification\<close>, not among the sources). A notification has a title, a
  message, a type, a read flag that starts false and its creation time; creating one
  appends it to the feed, or throws when the store refuses the write.
\<close>

definition Notification_create :: "env \<Rightarrow> store \<Rightarrow> string \<Rightarrow> string \<Rightarrow> string \<Rightarrow> error + store" where
  "Notification_create e s ttl msg typ =
     (case notification_error e of
        Some err \<Rightarrow> Inl err
      | None \<Rightarrow>
          (if typ \<notin> set notificationTypes then Inl (ValidationError [Enum ''type''])
           else Inr (s\<lparr>notifications := notifications s @
                  [\<lparr>notif_title = ttl, notif_message = msg, notif_type = typ,
                    notif_read = False, notif_createdAt = now e\<rparr>]\<rparr>)))"


section \<open>Requests and responses\<close>

record item_request =
  req_menuItemId :: id_param
  req_quantity :: number

record order_request =
  req_items :: "item_request list option"
  req_orderType :: "string option"
  req_paymentMethod :: "string option"
  req_deliveryAddress :: "address option"
  req_notes :: "string option"
  req_mpesaCheckoutId :: "string option"

text \<open>The \<open>order\<close> object of the 201 response, and the object the track route answers with.\<close>

record created_order =
  co_id :: string
  co_orderNumber :: "string option"
  co_total :: number
  co_status :: string
  co_items :: "order_item list"
  co_createdAt :: date
  co_orderType :: string
  co_deliveryAddress :: "address option"

record tracked_order =
  tr_orderNumber :: "string option"
  tr_customerName :: string
  tr_orderStatus :: string
  tr_createdAt :: date
  tr_total :: number
  tr_items :: "order_item list"
  tr_orderType :: string
  tr_deliveryAddress :: "address option"

text \<open>
  A JSON body by the fields it has: \<open>Message\<close> is \<open>{message}\<close> and nothing else,
  \<open>ValidationFailed\<close> is \<open>{message, errors}\<close>, \<open>Failed\<close> is \<open>{message, error}\<close> with the
  caught error's message, \<open>ErrorMessage\<close> is \<open>{message}\<close> with the caught error's message,
  \<open>JoinedErrors\<close> is \<open>{message}\<close> with the validators' messages joined.
\<close>

datatype body =
    Message string
  | ValidationFailed string "validator_error list"
  | Failed string error
  | ErrorMessage error
  | JoinedErrors "validator_error list"
  | Created string created_order
  | Updated string order
  | Tracked tracked_order
  | MenuUpdated string menu_item

datatype response = Response (status: nat) (json: body)

text \<open>A template literal prints an absent value as \<open>undefined\<close>.\<close>

definition template :: "string option \<Rightarrow> string" where
  "template v = (case v of None \<Rightarrow> ''undefined'' | Some t \<Rightarrow> t)"

definition newline :: string where
  "newline = [CHR 0x0A]"

text \<open>\<open>order.items.map(item => `${item.quantity}x ${item.name}`).join(', ')\<close>.\<close>

definition itemsList :: "env \<Rightarrow> order \<Rightarrow> string" where
  "itemsList e this =
     join_comma (map (\<lambda>item. number_toString e (item_quantity item) @ ''x '' @ item_name item)
                     (items this))"

section \<open>POST /api/orders\<close>

text \<open>The \<open>catch\<close> of the handler.\<close>

definition createOrder_catch :: "error \<Rightarrow> response" where
  "createOrder_catch err =
     (case err of
        ValidationError errs \<Rightarrow> Response 400 (ValidationFailed ''Validation failed'' errs)
      | _ \<Rightarrow> Response 500 (Failed ''Failed to create order'' err))"

text \<open>
  The loop over the requested lines: each line is checked and its menu item fetched, and
  the name and the price of the menu item are copied into the order item. A \<open>return\<close>
  inside the loop, or an error caught, is the response on the left.
\<close>

fun fetch_items :: "menu_item list \<Rightarrow> order_item list \<Rightarrow> item_request list
    \<Rightarrow> response + order_item list" where
  "fetch_items m orderItems [] = Inr orderItems"
| "fetch_items m orderItems (item # rest) =
     (if falsy_id (req_menuItemId item) \<or> falsy_number (req_quantity item)
      then Inl (Response 400 (Message ''Each item must have menuItemId and quantity''))
      else
        (case findById menu_id m (req_menuItemId item) of
           Inl err \<Rightarrow> Inl (createOrder_catch err)
         | Inr None \<Rightarrow>
             Inl (Response 400
                   (Message (''Item with ID '' @ id_text (req_menuItemId item) @ '' not found'')))
         | Inr (Some menuItem) \<Rightarrow>
             (if \<not> available menuItem
              then Inl (Response 400 (Message (menu_name menuItem @ '' is not available'')))
              else fetch_items m
                     (orderItems @
                       [\<lparr>item_menuItemId = menu_id menuItem,
                         item_name = menu_name menuItem,
                         item_quantity = req_quantity item,
                         item_price = menu_price menuItem,
                         item_subtotal = js_mul (menu_price menuItem) (req_quantity item)\<rparr>])
                     rest)))"

text \<open>\<open>new Order(orderData)\<close>, with the defaults of the schema for what \<open>orderData\<close> lacks.\<close>

definition new_Order :: "env \<Rightarrow> customer \<Rightarrow> order_request \<Rightarrow> order_item list \<Rightarrow> order" where
  "new_Order e cust req orderItems =
     (let st = sum_subtotals orderItems
      in \<lparr>order_id = new_id e,
          orderNumber = None,
          userId = cust_id cust,
          customerId = cust_id cust,
          customerName = cust_name cust,
          customerPhone = cust_phone cust,
          customerEmail = or_else (cust_email cust) [],
          items = orderItems,
          subtotal = st,
          total = st,
          orderType = or_else (req_orderType req) ''takeaway'',
          deliveryAddress =
            (if req_orderType req = Some ''delivery'' then req_deliveryAddress req else None),
          paymentMethod = or_else (req_paymentMethod req) ''M-PESA'',
          paymentStatus = ''Pending'',
          mpesaCheckoutId =
            (if falsy (req_mpesaCheckoutId req) then None else req_mpesaCheckoutId req),
          mpesaReceipt = None,
          orderStatus = ''Pending'',
          order_notes = or_else (req_notes req) [],
          createdAt = now e,
          updatedAt = now e\<rparr>)"

definition bad_delivery_address :: "address option \<Rightarrow> bool" where
  "bad_delivery_address a =
     (case a of None \<Rightarrow> True | Some d \<Rightarrow> falsy (street d) \<or> falsy (city d))"

definition emoji_new :: string where
  "emoji_new = [CHR 0xF0, CHR 0x9F, CHR 0x86, CHR 0x95]"

definition emoji_package :: string where
  "emoji_package = [CHR 0xF0, CHR 0x9F, CHR 0x93, CHR 0xA6]"

definition emoji_money :: string where
  "emoji_money = [CHR 0xF0, CHR 0x9F, CHR 0x92, CHR 0xB0]"

definition emoji_warning :: string where
  "emoji_warning = [CHR 0xE2, CHR 0x9A, CHR 0xA0, CHR 0xEF, CHR 0xB8, CHR 0x8F]"

text \<open>The \<open>order\<close> object of the 201 response.\<close>

definition created_body :: "order \<Rightarrow> created_order" where
  "created_body ord =
     \<lparr>co_id = order_id ord,
      co_orderNumber = orderNumber ord,
      co_total = total ord,
      co_status = orderStatus ord,
      co_items = items ord,
      co_createdAt = createdAt ord,
      co_orderType = orderType ord,
      co_deliveryAddress = deliveryAddress ord\<rparr>"

definition newOrder_message :: "env \<Rightarrow> order \<Rightarrow> string" where
  "newOrder_message e ord =
     ''Order #'' @ template (orderNumber ord) @ '' from '' @ customerName ord
       @ newline @ ''Items: '' @ itemsList e ord
       @ newline @ ''Total: KES '' @ toLocaleString e (total ord)"

text \<open>
  \<open>customer.totalOrders = (customer.totalOrders || 0) + 1\<close>, and likewise the amount
  spent and the date of the last order.
\<close>

definition update_stats :: "date \<Rightarrow> customer \<Rightarrow> order \<Rightarrow> customer" where
  "update_stats d cust ord =
     cust\<lparr>totalOrders := js_add (or_zero (totalOrders cust)) (Num 1),
          totalSpent := js_add (or_zero (totalSpent cust)) (total ord),
          lastOrderDate := Some d\<rparr>"

text \<open>
  The steps after the order is saved: the customer's statistics, the notification, the
  response. Each \<open>await\<close> that throws ends in the \<open>catch\<close>, with the store as the
  earlier steps left it.
\<close>

definition after_save :: "env \<Rightarrow> store \<Rightarrow> customer \<Rightarrow> order \<Rightarrow> store \<times> response" where
  "after_save e s1 cust ord =
     (let cust1 = update_stats (now e) cust ord
      in case Customer_save e s1 cust1 of
           Inl err \<Rightarrow> (s1, createOrder_catch err)
         | Inr s2 \<Rightarrow>
             (case Notification_create e s2
                     (emoji_new @ '' New Order'')
                     (newOrder_message e ord)
                     ''success'' of
                Inl err \<Rightarrow> (s2, createOrder_catch err)
              | Inr s3 \<Rightarrow>
                  (s3, Response 201
                         (Created ''Order created successfully'' (created_body ord)))))"

text \<open>
  The handler, after the authentication middleware (\<open>middleware/auth\<close>, not among
  the sources) has put the customer's id into \<open>req.user.id\<close>.
\<close>

definition createOrder :: "env \<Rightarrow> store \<Rightarrow> id_param \<Rightarrow> order_request \<Rightarrow> store \<times> response" where
  "createOrder e s user_id req =
     (case req_items req of
        None \<Rightarrow> (s, Response 400 (Message ''Order must contain at least one item''))
      | Some its \<Rightarrow>
          if its = [] then (s, Response 400 (Message ''Order must contain at least one item''))
          else
            (case findById cust_id (customers s) user_id of
               Inl err \<Rightarrow> (s, createOrder_catch err)
             | Inr None \<Rightarrow> (s, Response 404 (Message ''Customer not found''))
             | Inr (Some cust) \<Rightarrow>
                 (case fetch_items (menu s) [] its of
                    Inl resp \<Rightarrow> (s, resp)
                  | Inr orderItems \<Rightarrow>
                      if req_orderType req = Some ''delivery''
                         \<and> bad_delivery_address (req_deliveryAddress req)
                      then (s, Response 400 (Message
                        ''Delivery address (street and city) is required for delivery orders''))
                      else
                        (case Order_save e s True (new_Order e cust req orderItems) of
                           Inl err \<Rightarrow> (s, createOrder_catch err)
                         | Inr (s1, ord) \<Rightarrow> after_save e s1 cust ord))))"


section \<open>PATCH /api/orders/:id/status and PATCH /api/orders/:id/payment\<close>

text \<open>\<open>validStatuses.includes(v)\<close> on a body field that may be absent.\<close>

definition array_includes :: "string list \<Rightarrow> string option \<Rightarrow> bool" where
  "array_includes vals v = (case v of None \<Rightarrow> False | Some t \<Rightarrow> t \<in> set vals)"

definition staff :: "string \<Rightarrow> bool" where
  "staff role = (\<not> (role \<noteq> ''admin'' \<and> role \<noteq> ''manager''))"

definition statusUpdated_message :: "env \<Rightarrow> order \<Rightarrow> string option \<Rightarrow> string" where
  "statusUpdated_message e ord status_p =
     ''Order #'' @ template (orderNumber ord) @ '' is now '' @ template status_p
       @ newline @ ''Items: '' @ itemsList e ord"

definition paymentUpdated_message :: "env \<Rightarrow> order \<Rightarrow> string option \<Rightarrow> string" where
  "paymentUpdated_message e ord paymentStatus_p =
     ''Payment for order #'' @ template (orderNumber ord) @ '' is now ''
       @ template paymentStatus_p
       @ newline @ ''Total: KES '' @ toLocaleString e (total ord)"

definition setOrderStatus :: "env \<Rightarrow> store \<Rightarrow> string \<Rightarrow> id_param \<Rightarrow> string option
    \<Rightarrow> store \<times> response" where
  "setOrderStatus e s role id_p status_p =
     (if \<not> staff role then (s, Response 403 (Message ''Access denied''))
      else if \<not> array_includes
                 [''Pending'', ''Confirmed'', ''Preparing'', ''Ready'', ''Out for Delivery'',
                  ''Delivered'', ''Completed'', ''Cancelled''] status_p
      then (s, Response 400 (Message ''Invalid status''))
      else
        (case findById order_id (orders s) id_p of
           Inl err \<Rightarrow> (s, Response 500 (ErrorMessage err))
         | Inr None \<Rightarrow> (s, Response 404 (Message ''Order not found''))
         | Inr (Some ord) \<Rightarrow>
             (case Order_save e s False (ord\<lparr>orderStatus := template status_p\<rparr>) of
                Inl err \<Rightarrow> (s, Response 500 (ErrorMessage err))
              | Inr (s1, ord1) \<Rightarrow>
                  (case Notification_create e s1
                          (emoji_package @ '' Order Status Updated'')
                          (statusUpdated_message e ord1 status_p)
                          ''info'' of
                     Inl err \<Rightarrow> (s1, Response 500 (ErrorMessage err))
                   | Inr s2 \<Rightarrow> (s2, Response 200 (Updated ''Order status updated'' ord1))))))"

text \<open>
  \<open>order.paymentStatus = paymentStatus\<close>, and \<open>order.mpesaReceipt = mpesaReceipt\<close> when a
  receipt is given.
\<close>

definition payment_edit :: "order \<Rightarrow> string option \<Rightarrow> string option \<Rightarrow> order" where
  "payment_edit ord paymentStatus_p mpesaReceipt_p =
     (let ord1 = ord\<lparr>paymentStatus := template paymentStatus_p\<rparr>
      in if falsy mpesaReceipt_p then ord1 else ord1\<lparr>mpesaReceipt := mpesaReceipt_p\<rparr>)"

definition setPaymentStatus :: "env \<Rightarrow> store \<Rightarrow> string \<Rightarrow> id_param \<Rightarrow> string option
    \<Rightarrow> string option \<Rightarrow> store \<times> response" where
  "setPaymentStatus e s role id_p paymentStatus_p mpesaReceipt_p =
     (if \<not> staff role then (s, Response 403 (Message ''Access denied''))
      else if \<not> array_includes [''Pending'', ''Paid'', ''Failed'', ''Refunded''] paymentStatus_p
      then (s, Response 400 (Message ''Invalid payment status''))
      else
        (case findById order_id (orders s) id_p of
           Inl err \<Rightarrow> (s, Response 500 (ErrorMessage err))
         | Inr None \<Rightarrow> (s, Response 404 (Message ''Order not found''))
         | Inr (Some ord) \<Rightarrow>
             (case Order_save e s False (payment_edit ord paymentStatus_p mpesaReceipt_p) of
                Inl err \<Rightarrow> (s, Response 500 (ErrorMessage err))
              | Inr (s1, ord1) \<Rightarrow>
                  (case Notification_create e s1
                          (if paymentStatus_p = Some ''Paid''
                           then emoji_money @ '' Payment Received''
                           else emoji_warning @ '' Payment Update'')
                          (paymentUpdated_message e ord1 paymentStatus_p)
                          (if paymentStatus_p = Some ''Paid'' then ''success'' else ''warning'') of
                     Inl err \<Rightarrow> (s1, Response 500 (ErrorMessage err))
                   | Inr s2 \<Rightarrow> (s2, Response 200 (Updated ''Payment status updated'' ord1))))))"

section \<open>GET /api/orders/track/:orderNumber\<close>

text \<open>
  \<open>Order.findOne({ orderNumber })\<close>, then the phone check, which is made only when the
  query gives a phone that is not empty.
\<close>

definition tracked_body :: "order \<Rightarrow> tracked_order" where
  "tracked_body ord =
     \<lparr>tr_orderNumber = orderNumber ord,
      tr_customerName = customerName ord,
      tr_orderStatus = orderStatus ord,
      tr_createdAt = createdAt ord,
      tr_total = total ord,
      tr_items = items ord,
      tr_orderType = orderType ord,
      tr_deliveryAddress = deliveryAddress ord\<rparr>"

definition trackOrder :: "store \<Rightarrow> string \<Rightarrow> string option \<Rightarrow> response" where
  "trackOrder s orderNumber_p phone =
     (case find (\<lambda>d. orderNumber d = Some orderNumber_p) (orders s) of
        None \<Rightarrow> Response 404 (Message ''Order not found'')
      | Some ord \<Rightarrow>
          if \<not> falsy phone \<and> Some (customerPhone ord) \<noteq> phone
          then Response 403 (Message ''Invalid phone number for this order'')
          else Response 200 (Tracked (tracked_body ord)))"

section \<open>PUT /api/menu/:id\<close>

text \<open>
  The fields of the body as the schema casts them (the name trimmed); an absent field is
  left as it is in the catalog.
\<close>

record menu_update =
  upd_name :: "string option"
  upd_category :: "string option"
  upd_price :: "number option"
  upd_description :: "string option"
  upd_preparationTime :: "number option"
  upd_available :: "bool option"
  upd_image :: "string option"

definition categories :: "string list" where
  "categories = [''Appetizer'', ''Main Course'', ''Dessert'', ''Beverage'', ''Side Dish'']"

definition on_field :: "'a option \<Rightarrow> ('a \<Rightarrow> validator_error list) \<Rightarrow> validator_error list" where
  "on_field v chk = (case v of None \<Rightarrow> [] | Some x \<Rightarrow> chk x)"

text \<open>\<open>runValidators: true\<close>: the validators of the paths the update sets.\<close>

definition validate_menu_update :: "menu_update \<Rightarrow> validator_error list" where
  "validate_menu_update u =
     on_field (upd_name u) (check_required ''name'')
   @ on_field (upd_category u) (check_required_enum ''category'' categories)
   @ on_field (upd_price u) (check_min ''price'' (Num 0))
   @ on_field (upd_preparationTime u) (check_min ''preparationTime'' (Num 0))"

definition upd :: "'a option \<Rightarrow> 'a \<Rightarrow> 'a" where
  "upd v old = (case v of None \<Rightarrow> old | Some x \<Rightarrow> x)"

definition apply_menu_update :: "menu_update \<Rightarrow> menu_item \<Rightarrow> menu_item" where
  "apply_menu_update u m =
     m\<lparr>menu_name := upd (upd_name u) (menu_name m),
       category := upd (upd_category u) (category m),
       menu_price := upd (upd_price u) (menu_price m),
       description := upd (upd_description u) (description m),
       preparationTime := upd (upd_preparationTime u) (preparationTime m),
       available := upd (upd_available u) (available m),
       image := upd (upd_image u) (image m)\<rparr>"

definition updateMenuItem :: "store \<Rightarrow> id_param \<Rightarrow> menu_update \<Rightarrow> store \<times> response" where
  "updateMenuItem s id_p u =
     (case findById menu_id (menu s) id_p of
        Inl err \<Rightarrow> (s, Response 500 (ErrorMessage err))
      | Inr found \<Rightarrow>
          if validate_menu_update u \<noteq> []
          then (s, Response 400 (JoinedErrors (validate_menu_update u)))
          else
            (case found of
               None \<Rightarrow> (s, Response 404 (Message ''Menu item not found''))
             | Some m \<Rightarrow>
                 (s\<lparr>menu := map (\<lambda>d. if menu_id d = menu_id m then apply_menu_update u m else d)
                                 (menu s)\<rparr>,
                  Response 200 (MenuUpdated ''Menu item updated successfully''
                                  (apply_menu_update u m)))))"


section \<open>Properties and the specification's wording\<close>

text \<open>
  The totals of an order agree with its lines, in JavaScript's arithmetic: every line's
  subtotal is the (rounded) product of its unit price and its quantity, and the subtotal
  and the total are both the sum of the lines' subtotals, added from the left and rounded
  at each step.
\<close>

definition js_sum :: "number list \<Rightarrow> number" where
  "js_sum xs = foldl js_add (Num 0) xs"

definition totals_consistent :: "order \<Rightarrow> bool" where
  "totals_consistent this =
     (list_all (\<lambda>item. item_subtotal item = js_mul (item_price item) (item_quantity item))
        (items this)
      \<and> subtotal this = js_sum (map item_subtotal (items this))
      \<and> total this = js_sum (map item_subtotal (items this))
      \<and> total this = subtotal this)"

text \<open>
  The same in exact arithmetic. The lines have whole amounts: the prices and quantities
  \<open>pqs\<close>, none negative; and the exact total of such lines.
\<close>

definition whole_amounts :: "order_item list \<Rightarrow> (int \<times> int) list \<Rightarrow> bool" where
  "whole_amounts its pqs =
     list_all2 (\<lambda>item (p, q). item_price item = Num (of_int p)
                  \<and> item_quantity item = Num (of_int q) \<and> 0 \<le> p \<and> 0 \<le> q) its pqs"

definition exact_total :: "(int \<times> int) list \<Rightarrow> int" where
  "exact_total pqs = sum_list (map (\<lambda>(p, q). p * q) pqs)"

text \<open>No line of the order has a product that is NaN (an infinite quantity at price 0).\<close>

definition products_defined :: "order \<Rightarrow> bool" where
  "products_defined this =
     list_all (\<lambda>item. js_mul (item_quantity item) (item_price item) \<noteq> NaN) (items this)"

text \<open>
  The order number as the specification words it: \<open>ORD\<close>, the two-digit year, month and
  day, and the sequence number padded with zeros to four digits.
\<close>

definition two_digits :: "nat \<Rightarrow> string" where
  "two_digits k = [digit_char (k div 10 mod 10), digit_char (k mod 10)]"

definition zero_padded4 :: "nat \<Rightarrow> string" where
  "zero_padded4 k =
     (if k < 10000
      then [digit_char (k div 1000 mod 10), digit_char (k div 100 mod 10),
            digit_char (k div 10 mod 10), digit_char (k mod 10)]
      else nat_toString k)"

definition spec_orderNumber :: "date \<Rightarrow> nat \<Rightarrow> string" where
  "spec_orderNumber d n =
     ''ORD'' @ two_digits (nat (getFullYear d) mod 100) @ two_digits (getMonth d + 1)
       @ two_digits (getDate d) @ zero_padded4 (n + 1)"

text \<open>
  Every stored order has its own id and has an order number; and, further, the order
  numbers are distinct and every stored order passes the validation of the schema.
\<close>

definition numbered :: "store \<Rightarrow> bool" where
  "numbered s =
     (distinct (map order_id (orders s))
      \<and> list_all (\<lambda>n. \<not> falsy n) (map orderNumber (orders s)))"

definition stored_ok :: "store \<Rightarrow> bool" where
  "stored_ok s =
     (numbered s
      \<and> distinct (map orderNumber (orders s))
      \<and> list_all (\<lambda>d. validate_order d = []) (orders s))"

text \<open>
  An order item is the copy of what the catalog \<open>m\<close> holds for the requested line: the
  id, the name and the price of the menu item, the requested quantity, and their product
  as JavaScript computes it.
\<close>

definition snapshot_of :: "menu_item list \<Rightarrow> item_request \<Rightarrow> order_item \<Rightarrow> bool" where
  "snapshot_of m r it =
     (case req_menuItemId r of
        Oid i \<Rightarrow>
          (case find (\<lambda>d. menu_id d = i) m of
             Some mi \<Rightarrow>
               item_menuItemId it = menu_id mi
               \<and> item_name it = menu_name mi
               \<and> item_price it = menu_price mi
               \<and> item_quantity it = req_quantity r
               \<and> item_subtotal it = js_mul (menu_price mi) (req_quantity r)
           | None \<Rightarrow> False)
      | _ \<Rightarrow> False)"

text \<open>
  A requested line the loop of the handler passes: a quantity, and the id of a menu item
  that is in the catalog and available.
\<close>

definition line_ok :: "menu_item list \<Rightarrow> item_request \<Rightarrow> bool" where
  "line_ok m r =
     (\<not> falsy_number (req_quantity r)
      \<and> (case req_menuItemId r of
            Oid i \<Rightarrow> (case find (\<lambda>d. menu_id d = i) m of
                        Some mi \<Rightarrow> available mi
                      | None \<Rightarrow> False)
          | _ \<Rightarrow> False))"

text \<open>
  A catalog as the menu schema keeps it (a name, a price that is not negative), and an
  intake that has nothing wrong with it: lines that the loop passes with finite quantities
  of at least one, a customer with a name and a phone, an order type and a payment method that
  are absent or among the enumerated ones, an address for a delivery, a new id and a new
  order number that no stored order has, and writes that go through.
\<close>

definition menu_ok :: "menu_item list \<Rightarrow> bool" where
  "menu_ok m =
     list_all (\<lambda>mi. menu_id mi \<noteq> [] \<and> menu_name mi \<noteq> [] \<and> js_ge (menu_price mi) (Num 0)) m"

definition valid_intake :: "env \<Rightarrow> store \<Rightarrow> id_param \<Rightarrow> order_request \<Rightarrow> bool" where
  "valid_intake e s u req =
     (case req_items req of
        None \<Rightarrow> False
      | Some its \<Rightarrow>
          its \<noteq> [] \<and> list_all (line_ok (menu s)) its
          \<and> list_all (\<lambda>r. js_ge (req_quantity r) (Num 1) \<and> req_quantity r \<noteq> PosInf) its
          \<and> menu_ok (menu s)
          \<and> (case findById cust_id (customers s) u of
                Inr (Some cust) \<Rightarrow> cust_name cust \<noteq> [] \<and> cust_phone cust \<noteq> []
              | _ \<Rightarrow> False)
          \<and> or_else (req_orderType req) ''takeaway'' \<in> set orderTypes
          \<and> \<not> (req_orderType req = Some ''delivery''
                \<and> bad_delivery_address (req_deliveryAddress req))
          \<and> or_else (req_paymentMethod req) ''M-PESA'' \<in> set paymentMethods
          \<and> \<not> list_ex (\<lambda>d. order_id d = new_id e) (orders s)
          \<and> \<not> list_ex (\<lambda>d. orderNumber d
                  = Some (generateOrderNumber (now e) (length (orders s)))) (orders s)
          \<and> customer_save_error e = None \<and> notification_error e = None)"

section \<open>A small restaurant\<close>

definition ex_date :: date where
  "ex_date = \<lparr>getFullYear = 2026, getMonth = 10, getDate = 2, getTime = 1793611800000\<rparr>"

text \<open>
  The rendering of a whole number, digit by digit; the restaurant has no other amounts.
\<close>

function ex_digits :: "int \<Rightarrow> string" where
  "ex_digits n =
     (if n < 10 then [digit_char (nat n)]
      else ex_digits (n div 10) @ [digit_char (nat (n mod 10))])"
  by pat_completeness auto
termination
  by (relation "measure nat") auto

declare ex_digits.simps [simp del]

definition ex_toString :: "number \<Rightarrow> string" where
  "ex_toString a =
     (case a of
        Num x \<Rightarrow> (if x < 0 then CHR ''-'' # ex_digits (- \<lfloor>x\<rfloor>) else ex_digits \<lfloor>x\<rfloor>)
      | PosInf \<Rightarrow> ''Infinity''
      | NegInf \<Rightarrow> ''-Infinity''
      | NaN \<Rightarrow> ''NaN'')"

definition ex_env :: env where
  "ex_env = \<lparr>now = ex_date, new_id = ''66a000000000000000000003'',
     number_toString = ex_toString, toLocaleString = ex_toString,
     customer_save_error = None, notification_error = None\<rparr>"

definition ex_customer :: customer where
  "ex_customer = \<lparr>cust_id = ''66a000000000000000000001'', cust_customerId = Some ''CUST00001'',
     cust_name = ''Wanjiru'', cust_email = None, cust_phone = ''0712345678'',
     totalOrders = Num 0, totalSpent = Num 0, lastOrderDate = None\<rparr>"

definition ex_menu_item :: menu_item where
  "ex_menu_item = \<lparr>menu_id = ''66a000000000000000000002'', menuId = Some ''MENU0001'',
     menu_name = ''Chapati'', category = ''Side Dish'', menu_price = Num 500,
     description = [], preparationTime = Num 15, available = True, image = ''fa-utensils''\<rparr>"

definition ex_store :: store where
  "ex_store = \<lparr>customers = [ex_customer], menu = [ex_menu_item], orders = [],
     notifications = []\<rparr>"

definition ex_user :: id_param where
  "ex_user = Oid ''66a000000000000000000001''"

text \<open>Two chapatis, with neither an order type nor a payment method.\<close>

definition ex_request :: order_request where
  "ex_request = \<lparr>req_items = Some [\<lparr>req_menuItemId = Oid ''66a000000000000000000002'',
       req_quantity = Num 2\<rparr>],
     req_orderType = None, req_paymentMethod = None,
     req_deliveryAddress = None, req_notes = None, req_mpesaCheckoutId = None\<rparr>"

text \<open>The order that request becomes, and the store that holds it.\<close>

definition ex_order :: order where
  "ex_order = \<lparr>order_id = ''66a000000000000000000003'', orderNumber = Some ''ORD2611020001'',
     userId = ''66a000000000000000000001'', customerId = ''66a000000000000000000001'',
     customerName = ''Wanjiru'', customerPhone = ''0712345678'', customerEmail = [],
     items = [\<lparr>item_menuItemId = ''66a000000000000000000002'', item_name = ''Chapati'',
               item_quantity = Num 2, item_price = Num 500, item_subtotal = Num 1000\<rparr>],
     subtotal = Num 1000, total = Num 1000, orderType = ''takeaway'', deliveryAddress = None,
     paymentMethod = ''M-PESA'', paymentStatus = ''Pending'', mpesaCheckoutId = None,
     mpesaReceipt = None, orderStatus = ''Pending'', order_notes = [],
     createdAt = ex_date, updatedAt = ex_date\<rparr>"

definition ex_store1 :: store where
  "ex_store1 = \<lparr>customers = [ex_customer\<lparr>totalOrders := Num 1, totalSpent := Num 1000,
       lastOrderDate := Some ex_date\<rparr>],
     menu = [ex_menu_item],
     orders = [ex_order],
     notifications = [\<lparr>notif_title = emoji_new @ '' New Order'',
       notif_message = ''Order #ORD2611020001 from Wanjiru'' @ newline @ ''Items: 2x Chapati''
         @ newline @ ''Total: KES 1000'',
       notif_type = ''success'', notif_read = False, notif_createdAt = ex_date\<rparr>]\<rparr>"

definition ex_order_id :: id_param where
  "ex_order_id = Oid ''66a000000000000000000003''"

text \<open>The same environment with the notification store down.\<close>

definition ex_env_down :: env where
  "ex_env_down = ex_env\<lparr>notification_error := Some StorageError\<rparr>"

text \<open>A request for a menu item the catalog does not have.\<close>

definition ex_request_unknown :: order_request where
  "ex_request_unknown = ex_request\<lparr>req_items :=
     Some [\<lparr>req_menuItemId = Oid ''66a0000000000000000000ff'', req_quantity = Num 1\<rparr>]\<rparr>"

text \<open>A new name and a new price for the chapati.\<close>

definition ex_change :: menu_update where
  "ex_change = \<lparr>upd_name = Some ''Chapati Special'', upd_category = None,
     upd_price = Some (Num 800), upd_description = None, upd_preparationTime = None,
     upd_available = None, upd_image = None\<rparr>"

definition ex_menu_param :: id_param where
  "ex_menu_param = Oid ''66a000000000000000000002''"

text \<open>
  A catalog where the chapati costs 9007199254740991 (the largest whole number below which
  every whole number is a double), and a request for three of them.
\<close>

definition ex_store_dear :: store where
  "ex_store_dear = ex_store\<lparr>menu := [ex_menu_item\<lparr>menu_price := Num 9007199254740991\<rparr>]\<rparr>"

definition ex_request_three :: order_request where
  "ex_request_three = ex_request\<lparr>req_items :=
     Some [\<lparr>req_menuItemId = Oid ''66a000000000000000000002'', req_quantity = Num 3\<rparr>]\<rparr>"

text \<open>The order that the code stores for it.\<close>

definition ex_order_dear :: order where
  "ex_order_dear = ex_order\<lparr>items :=
       [\<lparr>item_menuItemId = ''66a000000000000000000002'', item_name = ''Chapati'',
         item_quantity = Num 3, item_price = Num 9007199254740991,
         item_subtotal = Num 27021597764222972\<rparr>],
     subtotal := Num 27021597764222972, total := Num 27021597764222972\<rparr>"

text \<open>The store with the order delivered.\<close>

definition ex_store_delivered :: store where
  "ex_store_delivered = ex_store1\<lparr>orders := [ex_order\<lparr>orderStatus := ''Delivered''\<rparr>]\<rparr>"


section \<open>Facts about the arithmetic\<close>

lemma pow2_pos: "0 < pow2 e"
  by (simp add: pow2_def)

lemma round_half_even_of_int: "round_half_even (of_int k) = k"
  by (simp add: round_half_even_def)

lemma round_half_even_nonneg: "0 \<le> x \<Longrightarrow> 0 \<le> round_half_even x"
  by (auto simp: round_half_even_def Let_def)

lemma js_ge_zero_iff: "js_ge x (Num 0) \<longleftrightarrow> x = PosInf \<or> (\<exists>r. x = Num r \<and> 0 \<le> r)"
  by (cases x) (simp_all add: js_ge_def)

lemma js_ge_not_NaN: "js_ge x y \<Longrightarrow> x \<noteq> NaN"
  by (auto simp: js_ge_def)

lemma round_double_nonneg:
  assumes "0 \<le> x"
  shows "js_ge (round_double x) (Num 0)"
proof (cases "x = 0")
  case True
  then show ?thesis by (simp add: round_double_def js_ge_def)
next
  case False
  with assms have "0 < x" by simp
  then have "0 \<le> \<bar>x\<bar> / pow2 (max (exponent \<bar>x\<bar>) (- 1022) - 52)"
    using pow2_pos by (simp add: divide_nonneg_pos less_imp_le)
  then have "0 \<le> round_half_even (\<bar>x\<bar> / pow2 (max (exponent \<bar>x\<bar>) (- 1022) - 52))"
    by (rule round_half_even_nonneg)
  then have "0 \<le> rat_of_int (round_half_even (\<bar>x\<bar> / pow2 (max (exponent \<bar>x\<bar>) (- 1022) - 52)))
      * pow2 (max (exponent \<bar>x\<bar>) (- 1022) - 52)"
    using pow2_pos by (simp add: less_imp_le)
  with \<open>0 < x\<close> show ?thesis
    by (auto simp: round_double_def Let_def js_ge_zero_iff)
qed

lemma round_double_not_NaN [simp]: "round_double x \<noteq> NaN"
  by (simp add: round_double_def Let_def)

lemma js_mul_commute: "js_mul a b = js_mul b a"
  by (cases a; cases b) (simp_all add: js_mul_def mult.commute)

text \<open>A quantity of at least one at a price that is not negative costs nothing negative.\<close>

lemma js_mul_nonneg:
  assumes "js_ge q (Num 1)" "js_ge p (Num 0)" "js_mul q p \<noteq> NaN"
  shows "js_ge (js_mul q p) (Num 0)"
proof (cases q)
  case (Num a)
  with assms(1) have a: "1 \<le> a" by (simp add: js_ge_def)
  show ?thesis
  proof (cases p)
    case (Num b)
    with assms(2) have "0 \<le> b" by (simp add: js_ge_def)
    with a have "0 \<le> a * b" by simp
    then show ?thesis
      using \<open>q = Num a\<close> \<open>p = Num b\<close> by (simp add: js_mul_def round_double_nonneg)
  next
    case PosInf
    with a \<open>q = Num a\<close> show ?thesis by (simp add: js_mul_def sign_of_def js_ge_def)
  next
    case NegInf
    with assms(2) show ?thesis by (simp add: js_ge_def)
  next
    case NaN
    with assms(2) show ?thesis by (simp add: js_ge_def)
  qed
next
  case PosInf
  with assms(2,3) show ?thesis
    by (cases p) (auto simp: js_mul_def sign_of_def js_ge_def split: if_splits)
next
  case NegInf
  with assms(1) show ?thesis by (simp add: js_ge_def)
next
  case NaN
  with assms(1) show ?thesis by (simp add: js_ge_def)
qed

lemma js_add_nonneg:
  assumes "js_ge a (Num 0)" "js_ge b (Num 0)"
  shows "js_ge (js_add a b) (Num 0)"
proof -
  from assms consider "a = PosInf" | "b = PosInf"
    | x y where "a = Num x" "b = Num y" "0 \<le> x" "0 \<le> y"
    by (auto simp: js_ge_zero_iff)
  then show ?thesis
  proof cases
    case 1
    with assms(2) show ?thesis by (cases b) (simp_all add: js_add_def js_ge_def)
  next
    case 2
    with assms(1) show ?thesis by (cases a) (simp_all add: js_add_def js_ge_def)
  next
    case 3
    then show ?thesis by (simp add: js_add_def round_double_nonneg)
  qed
qed

lemma foldl_js_add_nonneg:
  "js_ge a (Num 0) \<Longrightarrow> \<forall>x\<in>set xs. js_ge x (Num 0) \<Longrightarrow> js_ge (foldl js_add a xs) (Num 0)"
  by (induction xs arbitrary: a) (simp_all add: js_add_nonneg)

lemma js_sum_nonneg: "\<forall>x\<in>set xs. js_ge x (Num 0) \<Longrightarrow> js_ge (js_sum xs) (Num 0)"
  unfolding js_sum_def by (rule foldl_js_add_nonneg) (simp_all add: js_ge_def)

text \<open>On whole numbers up to 9007199254740991 the rounding changes nothing.\<close>

lemma exponent_of_int:
  assumes "0 < n"
  shows "exponent (of_int n) = bitlen n - 1"
proof -
  have "pow2 (bitlen n - 1) \<le> rat_of_int n"
  proof -
    from bitlen_bounds[OF assms] have "2 ^ nat (bitlen n - 1) \<le> n" by simp
    then have "rat_of_int (2 ^ nat (bitlen n - 1)) \<le> rat_of_int n"
      by (simp only: of_int_le_iff)
    moreover have "1 \<le> bitlen n" using assms bitlen_eq_zero_iff[of n] bitlen_nonneg[of n]
      by linarith
    ultimately show ?thesis by (simp add: pow2_def)
  qed
  moreover have "bitlen 1 = 1" by (simp add: compute_bitlen)
  ultimately show ?thesis
    by (simp add: exponent_def Let_def)
qed

lemma round_double_of_int:
  assumes "0 \<le> n" "n \<le> 9007199254740991"
  shows "round_double (of_int n) = Num (of_int n)"
proof (cases "n = 0")
  case True
  then show ?thesis by (simp add: round_double_def)
next
  case False
  with assms have pos: "0 < n" by simp
  define e where "e = bitlen n - 1"
  from bitlen_bounds[OF pos] have "2 ^ nat (bitlen n - 1) \<le> n" by simp
  with assms(2) have "(2::int) ^ nat (bitlen n - 1) < 2 ^ 53" by simp
  then have "nat (bitlen n - 1) < 53"
    by (rule power_less_imp_less_exp[rotated]) simp
  moreover have b1: "1 \<le> bitlen n" using pos bitlen_eq_zero_iff[of n] bitlen_nonneg[of n]
    by linarith
  ultimately have e: "0 \<le> e" "e \<le> 52" by (simp_all add: e_def)
  have ex: "exponent (rat_of_int n) = e"
    unfolding e_def using pos by (rule exponent_of_int)
  have mx: "max e (- 1022) = e" using e by simp
  define k where "k = nat (52 - e)"
  define u where "u = pow2 (e - 52)"
  have ulp: "u = 1 / 2 ^ k"
    using e by (simp add: pow2_def k_def u_def)
  have q: "rat_of_int n / u = of_int (n * 2 ^ k)"
    by (simp add: ulp)
  have m: "round_half_even (rat_of_int n / u) = n * 2 ^ k"
    unfolding q by (rule round_half_even_of_int)
  have r: "rat_of_int (n * 2 ^ k) * u = of_int n"
    by (simp add: ulp)
  have a: "\<bar>rat_of_int n\<bar> = of_int n" "rat_of_int n \<noteq> 0" "\<not> rat_of_int n < 0"
    using pos by simp_all
  have "round_double (of_int n) = Num (rat_of_int (round_half_even (rat_of_int n / u)) * u)"
    unfolding round_double_def a ex mx Let_def u_def[symmetric]
    using e a by simp
  then show ?thesis by (simp only: m r)
qed

lemma js_mul_whole:
  assumes "0 \<le> p" "0 \<le> q" "p * q \<le> 9007199254740991"
  shows "js_mul (Num (of_int p)) (Num (of_int q)) = Num (of_int (p * q))"
proof -
  have "round_double (of_int (p * q)) = Num (of_int (p * q))"
    using assms by (intro round_double_of_int) simp_all
  then show ?thesis by (simp add: js_mul_def)
qed

lemma js_add_whole:
  assumes "0 \<le> a" "0 \<le> b" "a + b \<le> 9007199254740991"
  shows "js_add (Num (of_int a)) (Num (of_int b)) = Num (of_int (a + b))"
proof -
  have "round_double (of_int (a + b)) = Num (of_int (a + b))"
    using assms by (intro round_double_of_int) simp_all
  then show ?thesis by (simp add: js_add_def)
qed

lemma foldl_js_add_whole:
  "0 \<le> a \<Longrightarrow> \<forall>x\<in>set xs. 0 \<le> x \<Longrightarrow> a + sum_list xs \<le> 9007199254740991 \<Longrightarrow>
     foldl js_add (Num (of_int a)) (map (\<lambda>x. Num (of_int x)) xs) = Num (of_int (a + sum_list xs))"
proof (induction xs arbitrary: a)
  case Nil
  then show ?case by simp
next
  case (Cons x xs)
  from Cons.prems have x: "0 \<le> x" and nn: "0 \<le> sum_list xs"
    by (simp_all add: sum_list_nonneg)
  with Cons.prems have "js_add (Num (of_int a)) (Num (of_int x)) = Num (of_int (a + x))"
    by (intro js_add_whole) simp_all
  moreover have "foldl js_add (Num (of_int (a + x))) (map (\<lambda>x. Num (of_int x)) xs)
      = Num (of_int (a + x + sum_list xs))"
    using Cons.prems x by (intro Cons.IH) (simp_all add: add.assoc)
  ultimately show ?case by (simp add: add.assoc)
qed

lemma js_sum_whole:
  assumes "\<forall>x\<in>set xs. 0 \<le> x" "sum_list xs \<le> 9007199254740991"
  shows "js_sum (map (\<lambda>x. Num (of_int x)) xs) = Num (of_int (sum_list xs))"
  using foldl_js_add_whole[of 0 xs] assms by (simp add: js_sum_def)

text \<open>
  The rounding at some known values: 0.1, the sum 0.1 + 0.2, and two ties above
  9007199254740992.
\<close>

lemma round_double_examples:
  "round_double (1 / 10) = Num (3602879701896397 / 36028797018963968)"
  "js_add (Num (3602879701896397 / 36028797018963968))
       (Num (3602879701896397 / 18014398509481984))
     = Num (1351079888211149 / 4503599627370496)"
  "round_double 9007199254740993 = Num 9007199254740992"
  "round_double 9007199254740995 = Num 9007199254740996"
  by code_simp+

section \<open>Facts about the hooks and the save\<close>

lemma validate_order_items: "validate_order this = [] \<Longrightarrow> items this \<noteq> []"
  by (auto simp: validate_order_def validate_items_def)


lemma pre_validate_items [simp]: "items (pre_validate d n this) = items this"
  by (simp add: pre_validate_def)

lemma pre_validate_order_id [simp]: "order_id (pre_validate d n this) = order_id this"
  by (simp add: pre_validate_def)

lemma pre_save_order_id [simp]: "order_id (pre_save d this) = order_id this"
  by (simp add: pre_save_def Let_def)

lemma pre_save_orderNumber [simp]: "orderNumber (pre_save d this) = orderNumber this"
  by (simp add: pre_save_def Let_def)

lemma pre_save_items [simp]: "items (pre_save d this) = map recompute_item (items this)"
  by (simp add: pre_save_def Let_def)

lemma sum_subtotals_js_sum: "sum_subtotals its = js_sum (map item_subtotal its)"
  by (simp add: sum_subtotals_def js_sum_def foldl_map)

lemma check_min_Nil_iff: "check_min path lo v = [] \<longleftrightarrow> js_ge v lo"
  by (auto simp: check_min_def dest: js_ge_not_NaN)

lemma validate_item_Nil_iff:
  "validate_item i it = [] \<longleftrightarrow>
     item_menuItemId it \<noteq> [] \<and> item_name it \<noteq> [] \<and> js_ge (item_quantity it) (Num 1)
     \<and> js_ge (item_price it) (Num 0) \<and> js_ge (item_subtotal it) (Num 0)"
  by (auto simp: validate_item_def Let_def check_required_def check_min_Nil_iff)

lemma validate_items_Nil_iff:
  "validate_items its = [] \<longleftrightarrow> its \<noteq> [] \<and> (\<forall>it\<in>set its. validate_item 0 it = [])"
proof -
  have img: "snd ` set (enumerate 0 its) = set its"
    by (metis map_snd_enumerate set_map)
  have "(\<forall>p\<in>set (enumerate 0 its). validate_item (fst p) (snd p) = [])
      \<longleftrightarrow> (\<forall>p\<in>set (enumerate 0 its). validate_item 0 (snd p) = [])"
    by (simp add: validate_item_Nil_iff)
  also have "\<dots> \<longleftrightarrow> (\<forall>it\<in>snd ` set (enumerate 0 its). validate_item 0 it = [])"
    by simp
  also have "\<dots> \<longleftrightarrow> (\<forall>it\<in>set its. validate_item 0 it = [])"
    by (simp only: img)
  finally show ?thesis
    by (auto simp: validate_items_def case_prod_unfold)
qed


lemma validate_order_lines:
  "validate_order this = [] \<Longrightarrow> \<forall>it\<in>set (items this). validate_item 0 it = []"
  by (simp add: validate_order_def validate_items_Nil_iff)

lemma recompute_item_fields [simp]:
  "item_quantity (recompute_item it) = item_quantity it"
  "item_price (recompute_item it) = item_price it"
  "item_menuItemId (recompute_item it) = item_menuItemId it"
  "item_name (recompute_item it) = item_name it"
  by (simp_all add: recompute_item_def)

lemma recompute_item_defined:
  "js_mul (item_quantity it) (item_price it) \<noteq> NaN \<Longrightarrow>
     item_subtotal (recompute_item it) = js_mul (item_price it) (item_quantity it)"
  by (simp add: recompute_item_def set_number_def js_mul_commute)

lemma recompute_item_idem [simp]: "recompute_item (recompute_item it) = recompute_item it"
  by (simp add: recompute_item_def set_number_def)

lemma recompute_item_valid:
  "validate_item 0 it = [] \<Longrightarrow> validate_item 0 (recompute_item it) = []"
  by (auto simp: validate_item_Nil_iff recompute_item_def set_number_def
      intro: js_mul_nonneg)

lemma sum_subtotals_nonneg:
  "\<forall>it\<in>set its. validate_item 0 it = [] \<Longrightarrow> js_ge (sum_subtotals its) (Num 0)"
  unfolding sum_subtotals_js_sum
  by (rule js_sum_nonneg) (auto simp: validate_item_Nil_iff)

text \<open>What the hook makes of an order that has passed the validation.\<close>

lemma pre_save_validated:
  assumes "validate_order x = []"
  shows "pre_save d x = x\<lparr>items := map recompute_item (items x),
      subtotal := sum_subtotals (map recompute_item (items x)),
      total := sum_subtotals (map recompute_item (items x)), updatedAt := d\<rparr>"
proof -
  have "\<forall>it\<in>set (map recompute_item (items x)). validate_item 0 it = []"
    using validate_order_lines[OF assms] by (simp add: recompute_item_valid)
  then have "sum_subtotals (map recompute_item (items x)) \<noteq> NaN"
    by (blast dest: sum_subtotals_nonneg js_ge_not_NaN)
  then show ?thesis
    using validate_order_items[OF assms] by (simp add: pre_save_def Let_def set_number_def)
qed

lemma pre_save_consistent:
  assumes v: "validate_order x = []" and p: "products_defined x"
  shows "totals_consistent (pre_save d x)"
  using p unfolding pre_save_validated[OF v]
  by (simp add: totals_consistent_def products_defined_def list_all_iff
      recompute_item_defined sum_subtotals_js_sum)

lemma pre_save_products_defined [simp]:
  "products_defined (pre_save d x) = products_defined x"
  by (simp add: products_defined_def list_all_iff)

lemma pre_validate_products_defined [simp]:
  "products_defined (pre_validate d n x) = products_defined x"
  by (simp add: products_defined_def)

lemma Order_save_InrD:
  assumes "Order_save e s isNew this = Inr (s1, saved)"
  shows "saved = pre_save (now e) (pre_validate (now e) (length (orders s)) this)"
    and "validate_order (pre_validate (now e) (length (orders s)) this) = []"
    and "\<not> list_ex (\<lambda>d. order_id d \<noteq> order_id saved \<and> orderNumber d = orderNumber saved)
             (orders s)"
    and "isNew \<Longrightarrow> \<not> list_ex (\<lambda>d. order_id d = order_id saved) (orders s)"
    and "s1 = s\<lparr>orders := (if isNew then orders s @ [saved]
               else map (\<lambda>d. if order_id d = order_id saved then saved else d) (orders s))\<rparr>"
  using assms
  by (auto simp: Order_save_def Let_def split: if_splits)

lemma Order_save_consistent:
  assumes "Order_save e s isNew this = Inr (s1, saved)" and "products_defined this"
  shows "totals_consistent saved"
  unfolding Order_save_InrD(1)[OF assms(1)]
  using Order_save_InrD(2)[OF assms(1)] assms(2) by (simp add: pre_save_consistent)

lemma Order_save_products_defined:
  "Order_save e s isNew this = Inr (s1, saved) \<Longrightarrow> products_defined saved = products_defined this"
  by (drule Order_save_InrD(1)) simp

lemma findById_SomeD:
  "findById key coll p = Inr (Some d) \<Longrightarrow>
     \<exists>i. p = Oid i \<and> find (\<lambda>x. key x = i) coll = Some d \<and> key d = i"
  by (auto simp: findById_def find_Some_iff split: id_param.splits)

lemma find_append_new:
  "\<not> list_ex (\<lambda>d. key d = k) xs \<Longrightarrow> key x = k \<Longrightarrow> find (\<lambda>d. key d = k) (xs @ [x]) = Some x"
  by (induction xs) auto

lemma find_map_replace:
  "find (\<lambda>d. key d = k) xs = Some old \<Longrightarrow> key x = k \<Longrightarrow>
     find (\<lambda>d. key d = k) (map (\<lambda>d. if key d = k then x else d) xs) = Some x"
  by (induction xs) (auto split: if_splits)

lemma Order_save_insert_find:
  assumes "Order_save e s True this = Inr (s1, saved)"
  shows "find (\<lambda>d. order_id d = order_id saved) (orders s1) = Some saved"
  using Order_save_InrD(4,5)[OF assms] by (simp add: find_append_new)

lemma Order_save_update_find:
  assumes "Order_save e s False this = Inr (s1, saved)"
    and "find (\<lambda>d. order_id d = order_id this) (orders s) = Some old"
  shows "find (\<lambda>d. order_id d = order_id saved) (orders s1) = Some saved"
proof -
  have "order_id saved = order_id this"
    using Order_save_InrD(1)[OF assms(1)] by simp
  then show ?thesis
    using Order_save_InrD(5)[OF assms(1)] assms(2) by (simp add: find_map_replace)
qed

section \<open>Facts about the handlers\<close>

lemma createOrder_catch_not_201 [simp]: "createOrder_catch err \<noteq> Response 201 b"
  by (simp add: createOrder_catch_def split: error.splits)

lemma fetch_items_Inl_not_201:
  "fetch_items m acc its = Inl resp \<Longrightarrow> resp \<noteq> Response 201 b"
  by (induction m acc its rule: fetch_items.induct)
     (auto split: if_splits sum.splits option.splits)

lemma Customer_save_InrD:
  "Customer_save e s c = Inr s2 \<Longrightarrow>
     orders s2 = orders s \<and> menu s2 = menu s \<and> notifications s2 = notifications s
     \<and> customer_save_error e = None"
  by (auto simp: Customer_save_def Let_def split: option.splits)

lemma Notification_create_InrD:
  "Notification_create e s t m ty = Inr s3 \<Longrightarrow>
     orders s3 = orders s \<and> menu s3 = menu s \<and> customers s3 = customers s
     \<and> notifications s3 = notifications s @
          [\<lparr>notif_title = t, notif_message = m, notif_type = ty, notif_read = False,
            notif_createdAt = now e\<rparr>]
     \<and> notification_error e = None"
  by (auto simp: Notification_create_def split: option.splits if_splits)

lemma after_save_201E:
  assumes "after_save e s1 cust ord = (s', Response 201 b)"
  obtains s2 where
    "Customer_save e s1 (update_stats (now e) cust ord) = Inr s2"
    "Notification_create e s2 (emoji_new @ '' New Order'') (newOrder_message e ord) ''success''
       = Inr s'"
    "b = Created ''Order created successfully'' (created_body ord)"
  using assms
  by (auto simp: after_save_def Let_def split: sum.splits)

lemma after_save_201D:
  assumes "after_save e s1 cust ord = (s', Response 201 b)"
  shows "orders s' = orders s1" and "menu s' = menu s1"
    and "b = Created ''Order created successfully'' (created_body ord)"
    and "customer_save_error e = None" and "notification_error e = None"
proof -
  from assms obtain s2 where
    c: "Customer_save e s1 (update_stats (now e) cust ord) = Inr s2"
    and n: "Notification_create e s2 (emoji_new @ '' New Order'') (newOrder_message e ord)
        ''success'' = Inr s'"
    and b: "b = Created ''Order created successfully'' (created_body ord)"
    by (rule after_save_201E)
  note cs = Customer_save_InrD[OF c] and ns = Notification_create_InrD[OF n]
  show "orders s' = orders s1" using cs ns by simp
  show "menu s' = menu s1" using cs ns by simp
  show "b = Created ''Order created successfully'' (created_body ord)" by (rule b)
  show "customer_save_error e = None" using cs by simp
  show "notification_error e = None" using ns by simp
qed

lemma createOrder_201E:
  assumes "createOrder e s u req = (s', Response 201 b)"
  obtains its cust orderItems s1 ord where
    "req_items req = Some its" "its \<noteq> []"
    "findById cust_id (customers s) u = Inr (Some cust)"
    "fetch_items (menu s) [] its = Inr orderItems"
    "\<not> (req_orderType req = Some ''delivery'' \<and> bad_delivery_address (req_deliveryAddress req))"
    "Order_save e s True (new_Order e cust req orderItems) = Inr (s1, ord)"
    "after_save e s1 cust ord = (s', Response 201 b)"
  using assms
  by (auto simp: createOrder_def split: option.splits if_splits sum.splits prod.splits
      dest: fetch_items_Inl_not_201)

lemma setOrderStatus_200E:
  assumes "setOrderStatus e s role p st = (s', Response 200 b)"
  obtains ord s1 ord1 where
    "staff role"
    "array_includes orderStatuses st"
    "findById order_id (orders s) p = Inr (Some ord)"
    "Order_save e s False (ord\<lparr>orderStatus := template st\<rparr>) = Inr (s1, ord1)"
    "Notification_create e s1 (emoji_package @ '' Order Status Updated'')
       (statusUpdated_message e ord1 st) ''info'' = Inr s'"
    "b = Updated ''Order status updated'' ord1"
  using assms
  by (auto simp: setOrderStatus_def orderStatuses_def
      split: if_splits sum.splits option.splits prod.splits)

lemma setPaymentStatus_200E:
  assumes "setPaymentStatus e s role p ps rc = (s', Response 200 b)"
  obtains ord s1 ord1 where
    "staff role"
    "array_includes paymentStatuses ps"
    "findById order_id (orders s) p = Inr (Some ord)"
    "Order_save e s False (payment_edit ord ps rc) = Inr (s1, ord1)"
    "Notification_create e s1
       (if ps = Some ''Paid'' then emoji_money @ '' Payment Received''
        else emoji_warning @ '' Payment Update'')
       (paymentUpdated_message e ord1 ps)
       (if ps = Some ''Paid'' then ''success'' else ''warning'') = Inr s'"
    "b = Updated ''Payment status updated'' ord1"
  using assms
  by (auto simp: setPaymentStatus_def paymentStatuses_def
      split: if_splits sum.splits option.splits prod.splits)

lemma payment_edit_order_id [simp]: "order_id (payment_edit ord ps rc) = order_id ord"
  by (simp add: payment_edit_def Let_def)

section \<open>Facts about the order number\<close>

lemma nat_toString_small: "n < 10 \<Longrightarrow> nat_toString n = [digit_char n]"
  by (simp add: nat_toString.simps)

lemma nat_toString_step:
  "10 \<le> n \<Longrightarrow> nat_toString n = nat_toString (n div 10) @ [digit_char (n mod 10)]"
  by (subst nat_toString.simps) simp

lemma nat_toString_last: "\<exists>pre. nat_toString n = pre @ [digit_char (n mod 10)]"
  by (cases "n < 10") (simp_all add: nat_toString_small nat_toString_step)

lemma digit_char_0: "digit_char 0 = CHR ''0''"
  by (simp add: digit_char_def)

lemma padStart2: "k < 100 \<Longrightarrow> padStart 2 (nat_toString k) = two_digits k"
proof (cases "k < 10")
  case True
  then show ?thesis
    by (simp add: nat_toString_small padStart_def two_digits_def digit_char_0)
next
  case False
  assume "k < 100"
  with False have "k div 10 < 10" "10 \<le> k" by simp_all
  then show ?thesis
    by (simp add: nat_toString_step nat_toString_small padStart_def two_digits_def)
qed

lemma last_two_digits:
  "k mod 100 div 10 mod 10 = k div 10 mod 10" "k mod 100 mod 10 = k mod 10"
  for k :: nat
proof -
  have "k mod (10 * 10) = 10 * (k div 10 mod 10) + k mod 10"
    by (rule mod_mult2_eq)
  then have "k mod 100 div 10 = k div 10 mod 10" by simp
  then show "k mod 100 div 10 mod 10 = k div 10 mod 10" by simp
  show "k mod 100 mod 10 = k mod 10"
    by (rule mod_mod_cancel) simp
qed

lemma slice_last2_toString:
  assumes "10 \<le> k"
  shows "slice_last2 (nat_toString k) = two_digits (k mod 100)"
proof -
  obtain pre where "nat_toString (k div 10) = pre @ [digit_char (k div 10 mod 10)]"
    using nat_toString_last by blast
  then have "nat_toString k = pre @ [digit_char (k div 10 mod 10), digit_char (k mod 10)]"
    using assms by (simp add: nat_toString_step)
  then show ?thesis
    by (simp add: slice_last2_def two_digits_def last_two_digits)
qed

lemma padStart4: "padStart 4 (nat_toString k) = zero_padded4 k"
proof -
  consider "k < 10" | "10 \<le> k" "k < 100" | "100 \<le> k" "k < 1000" | "1000 \<le> k" "k < 10000"
    | "10000 \<le> k" by linarith
  then show ?thesis
  proof cases
    case 1
    then show ?thesis
      by (simp add: nat_toString_small padStart_def zero_padded4_def digit_char_0
          numeral_3_eq_3)
  next
    case 2
    then have "k div 10 < 10" by simp
    with 2 show ?thesis
      by (simp add: nat_toString_step nat_toString_small padStart_def zero_padded4_def
          digit_char_0 numeral_2_eq_2)
  next
    case 3
    then have "k div 10 div 10 < 10" "10 \<le> k div 10" "10 \<le> k" by simp_all
    moreover have "k div 10 div 10 = k div 100" by (simp add: div_mult2_eq)
    moreover have "k div 1000 = 0" "k div 100 mod 10 = k div 100" using 3 by simp_all
    ultimately show ?thesis using 3
      by (simp add: nat_toString_step nat_toString_small padStart_def zero_padded4_def
          digit_char_0)
  next
    case 4
    then have "k div 10 div 10 div 10 < 10" "10 \<le> k div 10 div 10" "10 \<le> k div 10" "10 \<le> k"
      by simp_all
    moreover have "k div 10 div 10 = k div 100" "k div 10 div 10 div 10 = k div 1000"
      by (simp_all add: div_mult2_eq)
    moreover have "k div 1000 mod 10 = k div 1000" using 4 by simp
    ultimately show ?thesis using 4
      by (simp add: nat_toString_step nat_toString_small padStart_def zero_padded4_def)
  next
    case 5
    then have "10 \<le> k div 10 div 10 div 10" "10 \<le> k div 10 div 10" "10 \<le> k div 10" "10 \<le> k"
      by simp_all
    then have "4 \<le> length (nat_toString k)"
      by (simp add: nat_toString_step)
    with 5 show ?thesis
      by (simp add: padStart_def zero_padded4_def)
  qed
qed

lemma generateOrderNumber_spec:
  assumes "10 \<le> getFullYear d" "getMonth d \<le> 11" "getDate d \<le> 31"
  shows "generateOrderNumber d n = spec_orderNumber d n"
proof -
  have "int_toString (getFullYear d) = nat_toString (nat (getFullYear d))"
    using assms(1) by (simp add: int_toString_def)
  moreover have "10 \<le> nat (getFullYear d)" using assms(1) by simp
  ultimately show ?thesis
    using assms(2,3)
    by (simp add: generateOrderNumber_def spec_orderNumber_def Let_def slice_last2_toString
        padStart2 padStart4)
qed

lemma Order_save_orderNumber:
  assumes "Order_save e s isNew this = Inr (s1, saved)"
  shows "orderNumber saved =
    (if falsy (orderNumber this) then Some (generateOrderNumber (now e) (length (orders s)))
     else orderNumber this)"
  unfolding Order_save_InrD(1)[OF assms] by (simp add: pre_validate_def)

lemma new_Order_orderNumber [simp]: "orderNumber (new_Order e cust req its) = None"
  by (simp add: new_Order_def Let_def)

lemma generateOrderNumber_not_Nil: "generateOrderNumber d n \<noteq> []"
  by (simp add: generateOrderNumber_def Let_def)

lemma Order_save_numbered:
  assumes "Order_save e s isNew this = Inr (s1, saved)"
  shows "\<not> falsy (orderNumber saved)"
  using Order_save_orderNumber[OF assms]
  by (simp add: falsy_def generateOrderNumber_not_Nil split: if_splits)

lemma map_replace_absent:
  "k \<notin> key ` set xs \<Longrightarrow> map (\<lambda>d. if key d = k then x else d) xs = xs"
  by (induction xs) auto

lemma map_replace_same:
  "distinct (map key xs) \<Longrightarrow> find (\<lambda>d. key d = k) xs = Some old \<Longrightarrow> f x = f old \<Longrightarrow>
     map f (map (\<lambda>d. if key d = k then x else d) xs) = map f xs"
proof (induction xs)
  case Nil
  then show ?case by simp
next
  case (Cons a xs)
  show ?case
  proof (cases "key a = k")
    case True
    with Cons.prems have "a = old" "k \<notin> key ` set xs" by auto
    with True Cons.prems(3) show ?thesis by (simp add: map_replace_absent)
  next
    case False
    with Cons show ?thesis by simp
  qed
qed

lemma Order_save_update_columns:
  assumes sv: "Order_save e s False this = Inr (s1, saved)"
    and d: "distinct (map order_id (orders s))"
    and f: "find (\<lambda>d. order_id d = order_id this) (orders s) = Some old"
    and n: "orderNumber this = orderNumber old" "\<not> falsy (orderNumber old)"
  shows "map orderNumber (orders s1) = map orderNumber (orders s)"
    and "map order_id (orders s1) = map order_id (orders s)"
proof -
  have i: "order_id saved = order_id this"
    using Order_save_InrD(1)[OF sv] by simp
  have o: "orders s1 = map (\<lambda>d. if order_id d = order_id this then saved else d) (orders s)"
    using Order_save_InrD(5)[OF sv] i by simp
  have "orderNumber saved = orderNumber old"
    using Order_save_orderNumber[OF sv] n by simp
  then show "map orderNumber (orders s1) = map orderNumber (orders s)"
    unfolding o using d f by (intro map_replace_same)
  have "order_id saved = order_id old"
    using f i by (auto simp: find_Some_iff)
  then show "map order_id (orders s1) = map order_id (orders s)"
    unfolding o using d f by (intro map_replace_same)
qed

section \<open>What the handlers leave alone\<close>

lemma Customer_save_orders: "Customer_save e s c = Inr s2 \<Longrightarrow> orders s2 = orders s"
  by (simp add: Customer_save_InrD)

lemma Notification_create_orders:
  "Notification_create e s t m ty = Inr s3 \<Longrightarrow> orders s3 = orders s"
  by (simp add: Notification_create_InrD)

lemma after_save_orders: "orders (fst (after_save e s1 cust ord)) = orders s1"
proof -
  define cust1 where "cust1 = update_stats (now e) cust ord"
  show ?thesis
  proof (cases "Customer_save e s1 cust1")
    case (Inl err)
    then show ?thesis by (simp add: after_save_def cust1_def)
  next
    case c: (Inr s2)
    show ?thesis
    proof (cases "Notification_create e s2 (emoji_new @ '' New Order'')
        (newOrder_message e ord) ''success''")
      case (Inl err)
      with c show ?thesis
        by (simp add: after_save_def cust1_def Customer_save_orders)
    next
      case (Inr s3)
      with c Notification_create_orders[OF Inr] Customer_save_orders[OF c] show ?thesis
        by (simp add: after_save_def cust1_def)
    qed
  qed
qed

lemma createOrder_orders:
  "fst (createOrder e s u req) = s
   \<or> (\<exists>cust its s1 saved. Order_save e s True (new_Order e cust req its) = Inr (s1, saved)
        \<and> orders (fst (createOrder e s u req)) = orders s1)"
  by (auto simp: createOrder_def after_save_orders
      split: option.splits sum.splits prod.splits)

lemma setOrderStatus_orders:
  "fst (setOrderStatus e s role p st) = s
   \<or> (\<exists>ord s1 saved. findById order_id (orders s) p = Inr (Some ord)
        \<and> Order_save e s False (ord\<lparr>orderStatus := template st\<rparr>) = Inr (s1, saved)
        \<and> orders (fst (setOrderStatus e s role p st)) = orders s1)"
  by (auto simp: setOrderStatus_def
      split: option.splits sum.splits prod.splits dest: Notification_create_orders)

lemma setPaymentStatus_orders:
  "fst (setPaymentStatus e s role p ps rc) = s
   \<or> (\<exists>ord s1 saved. findById order_id (orders s) p = Inr (Some ord)
        \<and> Order_save e s False (payment_edit ord ps rc) = Inr (s1, saved)
        \<and> orders (fst (setPaymentStatus e s role p ps rc)) = orders s1)"
  by (auto simp: setPaymentStatus_def
      split: option.splits sum.splits prod.splits dest: Notification_create_orders)

lemma payment_edit_orderNumber [simp]: "orderNumber (payment_edit ord ps rc) = orderNumber ord"
  by (simp add: payment_edit_def Let_def)

lemma update_keeps_columns:
  assumes nb: "numbered s"
    and f: "findById order_id (orders s) p = Inr (Some ord)"
    and sv: "Order_save e s False this = Inr (s1, saved)"
    and t: "order_id this = order_id ord" "orderNumber this = orderNumber ord"
  shows "map orderNumber (orders s1) = map orderNumber (orders s)"
    and "map order_id (orders s1) = map order_id (orders s)"
proof -
  from findById_SomeD[OF f]
  have fd: "find (\<lambda>d. order_id d = order_id this) (orders s) = Some ord"
    using t(1) by auto
  then have "ord \<in> set (orders s)" by (auto simp: find_Some_iff)
  with nb have "\<not> falsy (orderNumber ord)"
    by (auto simp: numbered_def list_all_iff)
  with nb fd sv t(2) show "map orderNumber (orders s1) = map orderNumber (orders s)"
    and "map order_id (orders s1) = map order_id (orders s)"
    by (auto simp: numbered_def intro: Order_save_update_columns)
qed

lemma Order_save_env [simp]:
  "Order_save (e\<lparr>notification_error := x\<rparr>) s isNew this = Order_save e s isNew this"
  by (simp add: Order_save_def Let_def)

lemma Customer_save_env [simp]:
  "Customer_save (e\<lparr>notification_error := x\<rparr>) s c = Customer_save e s c"
  by (simp add: Customer_save_def)

lemma new_Order_env [simp]:
  "new_Order (e\<lparr>notification_error := x\<rparr>) c req its = new_Order e c req its"
  by (simp add: new_Order_def Let_def)

lemma Notification_create_fails [simp]:
  "Notification_create (e\<lparr>notification_error := Some err\<rparr>) s t m ty = Inl err"
  by (simp add: Notification_create_def)

lemma Notification_create_undo:
  "Notification_create e s t m ty = Inr s' \<Longrightarrow> s'\<lparr>notifications := notifications s\<rparr> = s"
  by (auto simp: Notification_create_def split: option.splits if_splits)

lemma Order_save_notifications:
  "Order_save e s isNew this = Inr (s1, saved) \<Longrightarrow> notifications s1 = notifications s"
  by (drule Order_save_InrD(5)) simp

lemma createOrder_catch_status: "status (createOrder_catch err) = 400 \<or> status (createOrder_catch err) = 500"
  by (simp add: createOrder_catch_def split: error.splits)

section \<open>Facts about the lines and the totals\<close>

lemma fetch_items_snapshot:
  "fetch_items m acc its = Inr out \<Longrightarrow> \<exists>new. out = acc @ new \<and> list_all2 (snapshot_of m) its new"
proof (induction m acc its arbitrary: out rule: fetch_items.induct)
  case (1 m orderItems)
  then show ?case by simp
next
  case (2 m orderItems item rest)
  from "2.prems" obtain i mi where
    i: "req_menuItemId item = Oid i" and mi: "find (\<lambda>d. menu_id d = i) m = Some mi"
    and av: "available mi" and q: "\<not> falsy_number (req_quantity item)"
    and rest: "fetch_items m
       (orderItems @ [\<lparr>item_menuItemId = menu_id mi, item_name = menu_name mi,
           item_quantity = req_quantity item, item_price = menu_price mi,
           item_subtotal = js_mul (menu_price mi) (req_quantity item)\<rparr>]) rest = Inr out"
    by (auto simp: findById_def falsy_id_def
        split: if_splits sum.splits option.splits id_param.splits)
  let ?it = "\<lparr>item_menuItemId = menu_id mi, item_name = menu_name mi,
           item_quantity = req_quantity item, item_price = menu_price mi,
           item_subtotal = js_mul (menu_price mi) (req_quantity item)\<rparr>"
  have fb: "findById menu_id m (req_menuItemId item) = Inr (Some mi)"
    using i mi by (simp add: findById_def)
  have nf: "\<not> (falsy_id (req_menuItemId item) \<or> falsy_number (req_quantity item))"
    using i q by (simp add: falsy_id_def)
  from "2.IH"[OF nf fb _ _ rest] av
  obtain new where "out = (orderItems @ [?it]) @ new" "list_all2 (snapshot_of m) rest new"
    by auto
  moreover have "snapshot_of m item ?it"
    using i mi by (simp add: snapshot_of_def)
  ultimately have "out = orderItems @ (?it # new) \<and> list_all2 (snapshot_of m) (item # rest) (?it # new)"
    by simp
  then show ?case by blast
qed

lemma snapshot_subtotal:
  "snapshot_of m r it \<Longrightarrow> item_subtotal it = js_mul (item_price it) (item_quantity it)"
  by (auto simp: snapshot_of_def split: id_param.splits option.splits)

lemma snapshot_products_defined:
  assumes sn: "list_all2 (snapshot_of m) its out"
    and v: "\<forall>it\<in>set out. validate_item 0 it = []"
  shows "list_all (\<lambda>item. js_mul (item_quantity item) (item_price item) \<noteq> NaN) out"
  unfolding list_all_iff
proof
  fix it assume i: "it \<in> set out"
  then obtain k where "k < length out" "it = out ! k"
    by (auto simp: in_set_conv_nth)
  with sn have "snapshot_of m (its ! k) it"
    by (simp add: list_all2_conv_all_nth)
  then have "item_subtotal it = js_mul (item_quantity it) (item_price it)"
    by (simp add: snapshot_subtotal js_mul_commute)
  moreover have "js_ge (item_subtotal it) (Num 0)"
    using v i by (simp add: validate_item_Nil_iff)
  ultimately show "js_mul (item_quantity it) (item_price it) \<noteq> NaN"
    by (auto dest: js_ge_not_NaN)
qed

lemma new_Order_products_defined:
  assumes sn: "list_all2 (snapshot_of m) its out"
    and sv: "Order_save e s isNew (new_Order e cust req out) = Inr (s1, saved)"
  shows "products_defined (new_Order e cust req out)"
proof -
  have "\<forall>it\<in>set out. validate_item 0 it = []"
    using validate_order_lines[OF Order_save_InrD(2)[OF sv]] by (simp add: new_Order_def Let_def)
  from snapshot_products_defined[OF sn this] show ?thesis
    by (simp add: products_defined_def new_Order_def Let_def)
qed

lemma snapshot_recompute:
  assumes "snapshot_of m r it" "validate_item 0 it = []"
  shows "recompute_item it = it"
proof -
  have s: "item_subtotal it = js_mul (item_quantity it) (item_price it)"
    using assms(1) by (simp add: snapshot_subtotal js_mul_commute)
  then show ?thesis by (simp add: recompute_item_def set_number_def)
qed

lemma updateMenuItem_orders [simp]: "orders (fst (updateMenuItem s p u)) = orders s"
  by (simp add: updateMenuItem_def split: sum.splits option.splits)

lemma trackOrder_orders: "orders s1 = orders s2 \<Longrightarrow> trackOrder s1 n ph = trackOrder s2 n ph"
  by (simp add: trackOrder_def)


text \<open>
  Saving again an order that a save has produced, with its lines and its totals as they
  were: the hook computes the same lines and the same totals.
\<close>

lemma resave_keeps_totals:
  assumes x: "validate_order x = []" and ord: "ord = pre_save d x"
    and t: "items this = items ord" "subtotal this = subtotal ord" "total this = total ord"
    and sv: "Order_save e s isNew this = Inr (s1, saved)"
  shows "items saved = items ord \<and> subtotal saved = subtotal ord \<and> total saved = total ord"
proof -
  let ?v = "pre_validate (now e) (length (orders s)) this"
  have o: "items ord = map recompute_item (items x)"
    "subtotal ord = sum_subtotals (map recompute_item (items x))"
    "total ord = sum_subtotals (map recompute_item (items x))"
    unfolding ord pre_save_validated[OF x] by simp_all
  have "saved = pre_save (now e) ?v" by (rule Order_save_InrD(1)[OF sv])
  also note pre_save_validated[OF Order_save_InrD(2)[OF sv]]
  finally show ?thesis
    by (simp add: t o comp_def)
qed

lemma fetch_items_unresolved:
  assumes "item \<in> set its" "req_menuItemId item = Oid i" "find (\<lambda>d. menu_id d = i) m = None"
  shows "\<exists>resp. fetch_items m acc its = Inl resp"
  using assms
proof (induction m acc its rule: fetch_items.induct)
  case (1 m orderItems)
  then show ?case by simp
next
  case (2 m orderItems x rest)
  show ?case
  proof (cases "item = x")
    case True
    with "2.prems" show ?thesis by (simp add: findById_def)
  next
    case False
    with "2.prems" have "item \<in> set rest" by simp
    with "2.IH" "2.prems" show ?thesis
      by (auto split: sum.splits option.splits)
  qed
qed

lemma fetch_items_prefix:
  "list_all (line_ok m) pre \<Longrightarrow> \<exists>acc'. fetch_items m acc (pre @ rest) = fetch_items m acc' rest"
proof (induction pre arbitrary: acc)
  case Nil
  then show ?case by auto
next
  case (Cons x pre)
  then obtain i mi where "req_menuItemId x = Oid i" "find (\<lambda>d. menu_id d = i) m = Some mi"
    "available mi" "\<not> falsy_number (req_quantity x)"
    by (auto simp: line_ok_def split: id_param.splits option.splits)
  with Cons show ?case
    by (simp add: findById_def falsy_id_def)
qed

section \<open>Saving a stored order again\<close>

lemma validate_order_status:
  "validate_order ord = [] \<Longrightarrow> v \<in> set orderStatuses \<Longrightarrow>
     validate_order (ord\<lparr>orderStatus := v\<rparr>) = []"
  by (simp add: validate_order_def check_enum_def)

lemma Order_save_update_succeeds:
  assumes ok: "stored_ok s"
    and f: "find (\<lambda>d. order_id d = order_id this) (orders s) = Some old"
    and n: "orderNumber this = orderNumber old"
    and v: "validate_order this = []"
  shows "Order_save e s False this =
     Inr (s\<lparr>orders := map (\<lambda>d. if order_id d = order_id this then pre_save (now e) this else d)
                           (orders s)\<rparr>, pre_save (now e) this)"
proof -
  from f have old: "old \<in> set (orders s)" "order_id old = order_id this"
    by (auto simp: find_Some_iff)
  from ok old(1) have nf: "\<not> falsy (orderNumber this)"
    by (auto simp: stored_ok_def numbered_def list_all_iff n)
  then have pv: "pre_validate (now e) (length (orders s)) this = this"
    by (simp add: pre_validate_def)
  from ok have "inj_on orderNumber (set (orders s))"
    by (simp add: stored_ok_def distinct_map)
  then have "d = old" if "d \<in> set (orders s)" "orderNumber d = orderNumber this" for d
    using that old(1) n by (auto dest: inj_onD)
  then have "\<not> list_ex (\<lambda>d. order_id d \<noteq> order_id this \<and> orderNumber d = orderNumber this)
      (orders s)"
    using old(2) by (auto simp: list_ex_iff)
  then show ?thesis
    using v by (simp add: Order_save_def pv Let_def)
qed

lemma pre_save_orderStatus [simp]: "orderStatus (pre_save d x) = orderStatus x"
  by (simp add: pre_save_def Let_def)

lemma pre_save_paymentStatus [simp]: "paymentStatus (pre_save d x) = paymentStatus x"
  by (simp add: pre_save_def Let_def)

lemma pre_save_orderType [simp]: "orderType (pre_save d x) = orderType x"
  by (simp add: pre_save_def Let_def)

lemma pre_save_paymentMethod [simp]: "paymentMethod (pre_save d x) = paymentMethod x"
  by (simp add: pre_save_def Let_def)

lemma pre_validate_orderType [simp]: "orderType (pre_validate d n x) = orderType x"
  by (simp add: pre_validate_def)

lemma pre_validate_paymentMethod [simp]: "paymentMethod (pre_validate d n x) = paymentMethod x"
  by (simp add: pre_validate_def)

section \<open>The store stays sound\<close>

lemma pre_save_valid:
  assumes "validate_order x = []"
  shows "validate_order (pre_save d x) = []"
proof -
  from assms have its: "items x \<noteq> []" "\<forall>it\<in>set (items x). validate_item 0 it = []"
    by (simp_all add: validate_order_def validate_items_Nil_iff)
  then have "validate_items (map recompute_item (items x)) = []"
    by (simp add: validate_items_Nil_iff recompute_item_valid)
  moreover have "js_ge (sum_subtotals (map recompute_item (items x))) (Num 0)"
    using its(2) by (intro sum_subtotals_nonneg) (simp add: recompute_item_valid)
  ultimately show ?thesis
    using assms unfolding pre_save_validated[OF assms]
    by (simp add: validate_order_def check_min_Nil_iff)
qed

lemma Order_save_valid:
  assumes "Order_save e s isNew this = Inr (s1, saved)"
  shows "validate_order saved = []"
  unfolding Order_save_InrD(1)[OF assms]
  using Order_save_InrD(2)[OF assms] by (rule pre_save_valid)

lemma stored_ok_columns:
  "stored_ok s \<longleftrightarrow>
     distinct (map order_id (orders s)) \<and> distinct (map orderNumber (orders s))
     \<and> (\<forall>d\<in>set (orders s). \<not> falsy (orderNumber d) \<and> validate_order d = [])"
  by (auto simp: stored_ok_def numbered_def list_all_iff)

lemma Order_save_insert_stored_ok:
  assumes ok: "stored_ok s" and sv: "Order_save e s True this = Inr (s1, saved)"
  shows "stored_ok s1"
proof -
  have o: "orders s1 = orders s @ [saved]"
    using Order_save_InrD(5)[OF sv] by simp
  have fresh: "\<forall>d\<in>set (orders s). order_id d \<noteq> order_id saved"
    using Order_save_InrD(4)[OF sv] by (auto simp: list_ex_iff)
  with Order_save_InrD(3)[OF sv]
  have "\<forall>d\<in>set (orders s). orderNumber d \<noteq> orderNumber saved"
    by (auto simp: list_ex_iff)
  with ok fresh Order_save_numbered[OF sv] Order_save_valid[OF sv] show ?thesis
    by (auto simp: stored_ok_columns o)
qed

lemma Order_save_update_stored_ok:
  assumes ok: "stored_ok s"
    and f: "findById order_id (orders s) p = Inr (Some ord)"
    and sv: "Order_save e s False this = Inr (s1, saved)"
    and t: "order_id this = order_id ord" "orderNumber this = orderNumber ord"
  shows "stored_ok s1"
proof -
  from ok have nb: "numbered s" by (simp add: stored_ok_def)
  note c = update_keeps_columns[OF nb f sv t]
  have i: "order_id saved = order_id this"
    using Order_save_InrD(1)[OF sv] by simp
  have "orders s1 = map (\<lambda>d. if order_id d = order_id saved then saved else d) (orders s)"
    using Order_save_InrD(5)[OF sv] by simp
  then have "\<forall>d\<in>set (orders s1). validate_order d = []"
    using ok Order_save_valid[OF sv] by (auto simp: stored_ok_columns)
  moreover have "\<forall>d\<in>set (orders s1). \<not> falsy (orderNumber d)"
  proof -
    have "list_all (\<lambda>n. \<not> falsy n) (map orderNumber (orders s1))"
      using nb c(1) by (simp add: numbered_def)
    then show ?thesis by (simp add: list_all_iff)
  qed
  ultimately show ?thesis
    using ok c by (simp add: stored_ok_columns)
qed

lemma stored_ok_orders: "orders s1 = orders s2 \<Longrightarrow> stored_ok s1 = stored_ok s2"
  by (simp add: stored_ok_def numbered_def)

text \<open>
  The property of the store that the claims assume is an invariant: the empty store has
  it, and the three handlers that write orders keep it.
\<close>

lemma stored_ok_invariant:
  "stored_ok \<lparr>customers = cs, menu = ms, orders = [], notifications = ns\<rparr>"
  "stored_ok s \<Longrightarrow> stored_ok (fst (createOrder e s u req))"
  "stored_ok s \<Longrightarrow> stored_ok (fst (setOrderStatus e s role p st))"
  "stored_ok s \<Longrightarrow> stored_ok (fst (setPaymentStatus e s role p ps rc))"
proof -
  show "stored_ok \<lparr>customers = cs, menu = ms, orders = [], notifications = ns\<rparr>"
    by (simp add: stored_ok_def numbered_def)
next
  assume ok: "stored_ok s"
  from createOrder_orders[of e s u req] show "stored_ok (fst (createOrder e s u req))"
  proof (elim disjE exE conjE)
    assume "fst (createOrder e s u req) = s"
    with ok show ?thesis by simp
  next
    fix cust its s1 saved
    assume sv: "Order_save e s True (new_Order e cust req its) = Inr (s1, saved)"
      and o: "orders (fst (createOrder e s u req)) = orders s1"
    from Order_save_insert_stored_ok[OF ok sv] stored_ok_orders[OF o] show ?thesis by simp
  qed
next
  assume ok: "stored_ok s"
  from setOrderStatus_orders[of e s role p st]
  show "stored_ok (fst (setOrderStatus e s role p st))"
  proof (elim disjE exE conjE)
    assume "fst (setOrderStatus e s role p st) = s"
    with ok show ?thesis by simp
  next
    fix ord s1 saved
    assume f: "findById order_id (orders s) p = Inr (Some ord)"
      and sv: "Order_save e s False (ord\<lparr>orderStatus := template st\<rparr>) = Inr (s1, saved)"
      and o: "orders (fst (setOrderStatus e s role p st)) = orders s1"
    from Order_save_update_stored_ok[OF ok f sv] stored_ok_orders[OF o] show ?thesis by simp
  qed
next
  assume ok: "stored_ok s"
  from setPaymentStatus_orders[of e s role p ps rc]
  show "stored_ok (fst (setPaymentStatus e s role p ps rc))"
  proof (elim disjE exE conjE)
    assume "fst (setPaymentStatus e s role p ps rc) = s"
    with ok show ?thesis by simp
  next
    fix ord s1 saved
    assume f: "findById order_id (orders s) p = Inr (Some ord)"
      and sv: "Order_save e s False (payment_edit ord ps rc) = Inr (s1, saved)"
      and o: "orders (fst (setPaymentStatus e s role p ps rc)) = orders s1"
    from Order_save_update_stored_ok[OF ok f sv] stored_ok_orders[OF o] show ?thesis by simp
  qed
qed

section \<open>A sound intake is accepted\<close>

lemma fetch_items_ok:
  assumes "list_all (line_ok m) its"
  shows "\<exists>out. fetch_items m [] its = Inr out \<and> list_all2 (snapshot_of m) its out"
proof -
  from fetch_items_prefix[OF assms, of "[]" "[]"] obtain acc' where
    "fetch_items m [] its = Inr acc'" by auto
  with fetch_items_snapshot[of m "[]" its acc'] show ?thesis by auto
qed

lemma js_mul_finite_defined:
  "js_ge q (Num 1) \<Longrightarrow> q \<noteq> PosInf \<Longrightarrow> js_ge p (Num 0) \<Longrightarrow> js_mul q p \<noteq> NaN"
  by (cases q; cases p) (auto simp: js_mul_def js_ge_def sign_of_def)

lemma snapshot_valid_item:
  assumes "snapshot_of m r it" "menu_ok m" "js_ge (req_quantity r) (Num 1)"
    "req_quantity r \<noteq> PosInf"
  shows "validate_item 0 it = []"
proof -
  from assms(1) obtain i mi where
    f: "find (\<lambda>d. menu_id d = i) m = Some mi"
    and it: "item_menuItemId it = menu_id mi" "item_name it = menu_name mi"
      "item_price it = menu_price mi" "item_quantity it = req_quantity r"
      "item_subtotal it = js_mul (menu_price mi) (req_quantity r)"
    by (auto simp: snapshot_of_def split: id_param.splits option.splits)
  from f have "mi \<in> set m" by (auto simp: find_Some_iff)
  with assms(2) have mi: "menu_id mi \<noteq> []" "menu_name mi \<noteq> []"
    "js_ge (menu_price mi) (Num 0)"
    by (auto simp: menu_ok_def list_all_iff)
  have "js_mul (req_quantity r) (menu_price mi) \<noteq> NaN"
    using assms(3,4) mi(3) by (rule js_mul_finite_defined)
  from js_mul_nonneg[OF assms(3) mi(3) this]
  have "js_ge (js_mul (menu_price mi) (req_quantity r)) (Num 0)"
    by (simp add: js_mul_commute)
  with it assms(3) mi show ?thesis
    by (simp add: validate_item_Nil_iff)
qed

lemma createOrder_succeeds:
  assumes "valid_intake e s u req"
  shows "\<exists>s' co. createOrder e s u req
      = (s', Response 201 (Created ''Order created successfully'' co))"
proof -
  from assms obtain its cust where
    ri: "req_items req = Some its" "its \<noteq> []"
    and lo: "list_all (line_ok (menu s)) its"
    and q: "list_all (\<lambda>r. js_ge (req_quantity r) (Num 1) \<and> req_quantity r \<noteq> PosInf) its"
    and mo: "menu_ok (menu s)"
    and cu: "findById cust_id (customers s) u = Inr (Some cust)"
      "cust_name cust \<noteq> []" "cust_phone cust \<noteq> []"
    and ot: "or_else (req_orderType req) ''takeaway'' \<in> set orderTypes"
    and dl: "\<not> (req_orderType req = Some ''delivery''
                \<and> bad_delivery_address (req_deliveryAddress req))"
    and pm: "or_else (req_paymentMethod req) ''M-PESA'' \<in> set paymentMethods"
    and fr: "\<not> list_ex (\<lambda>d. order_id d = new_id e) (orders s)"
      "\<not> list_ex (\<lambda>d. orderNumber d
                  = Some (generateOrderNumber (now e) (length (orders s)))) (orders s)"
    and ok: "customer_save_error e = None" "notification_error e = None"
    by (auto simp: valid_intake_def split: option.splits sum.splits)
  from fetch_items_ok[OF lo] obtain out where
    fi: "fetch_items (menu s) [] its = Inr out"
    and sn: "list_all2 (snapshot_of (menu s)) its out" by blast
  have ne: "out \<noteq> []" using list_all2_lengthD[OF sn] ri(2) by auto
  have vi: "\<forall>it\<in>set out. validate_item 0 it = []"
  proof
    fix it assume "it \<in> set out"
    then obtain i where i: "i < length out" "it = out ! i"
      by (auto simp: in_set_conv_nth)
    with sn have "its ! i \<in> set its" "snapshot_of (menu s) (its ! i) it"
      by (simp_all add: list_all2_conv_all_nth)
    with q mo show "validate_item 0 it = []"
      by (auto simp: list_all_iff intro: snapshot_valid_item)
  qed
  let ?new = "new_Order e cust req out"
  let ?v = "pre_validate (now e) (length (orders s)) ?new"
  have val: "validate_order ?v = []"
    using cu(2,3) ne vi ot pm sum_subtotals_nonneg[OF vi]
    by (auto simp: validate_order_def pre_validate_def new_Order_def Let_def
        validate_items_Nil_iff check_required_def check_min_Nil_iff check_enum_def
        check_required_enum_def paymentStatuses_def orderStatuses_def orderTypes_def
        paymentMethods_def)
  let ?saved = "pre_save (now e) ?v"
  have idn: "order_id ?saved = new_id e"
    "orderNumber ?saved = Some (generateOrderNumber (now e) (length (orders s)))"
    by (simp_all add: pre_validate_def new_Order_def Let_def falsy_def)
  have sv: "Order_save e s True ?new = Inr (s\<lparr>orders := orders s @ [?saved]\<rparr>, ?saved)"
    using val fr unfolding Order_save_def Let_def idn
    by (auto simp: list_ex_iff)
  let ?s1 = "s\<lparr>orders := orders s @ [?saved]\<rparr>"
  obtain s2 where cs: "Customer_save e ?s1 (update_stats (now e) cust ?saved) = Inr s2"
    using ok(1) by (simp add: Customer_save_def Let_def)
  obtain s3 where nc: "Notification_create e s2 (emoji_new @ '' New Order'')
      (newOrder_message e ?saved) ''success'' = Inr s3"
    using ok(2) by (simp add: Notification_create_def notificationTypes_def)
  have "after_save e ?s1 cust ?saved
      = (s3, Response 201 (Created ''Order created successfully'' (created_body ?saved)))"
    using cs nc by (simp add: after_save_def)
  then have "createOrder e s u req
      = (s3, Response 201 (Created ''Order created successfully'' (created_body ?saved)))"
    using ri cu(1) fi dl sv by (auto simp: createOrder_def)
  then show ?thesis by blast
qed

text \<open>The small restaurant, run.\<close>

lemma ex_createOrder:
  "createOrder ex_env ex_store ex_user ex_request =
     (ex_store1, Response 201 (Created ''Order created successfully'' (created_body ex_order)))"
  by code_simp

lemma ex_store1_orders: "orders ex_store1 = [ex_order]"
  by (simp add: ex_store1_def)

lemma ex_setOrderStatus:
  "setOrderStatus ex_env ex_store1 ''manager'' ex_order_id (Some ''Ready'') =
     (fst (setOrderStatus ex_env ex_store1 ''manager'' ex_order_id (Some ''Ready'')),
      Response 200 (Updated ''Order status updated'' (ex_order\<lparr>orderStatus := ''Ready''\<rparr>)))"
proof -
  have "snd (setOrderStatus ex_env ex_store1 ''manager'' ex_order_id (Some ''Ready'')) =
      Response 200 (Updated ''Order status updated'' (ex_order\<lparr>orderStatus := ''Ready''\<rparr>))"
    by code_simp
  then show ?thesis by (simp add: prod_eq_iff)
qed

lemma ex_setPaymentStatus:
  "setPaymentStatus ex_env ex_store1 ''admin'' ex_order_id (Some ''Paid'') (Some ''QGH7XK2L9P'') =
     (fst (setPaymentStatus ex_env ex_store1 ''admin'' ex_order_id (Some ''Paid'')
             (Some ''QGH7XK2L9P'')),
      Response 200 (Updated ''Payment status updated''
        (ex_order\<lparr>paymentStatus := ''Paid'', mpesaReceipt := Some ''QGH7XK2L9P''\<rparr>)))"
proof -
  have "snd (setPaymentStatus ex_env ex_store1 ''admin'' ex_order_id (Some ''Paid'')
             (Some ''QGH7XK2L9P'')) =
      Response 200 (Updated ''Payment status updated''
        (ex_order\<lparr>paymentStatus := ''Paid'', mpesaReceipt := Some ''QGH7XK2L9P''\<rparr>))"
    by code_simp
  then show ?thesis by (simp add: prod_eq_iff)
qed

lemma ex_Order_save:
  "Order_save ex_env ex_store1 False (ex_order\<lparr>orderStatus := ''Ready''\<rparr>) =
     Inr (ex_store1\<lparr>orders := [ex_order\<lparr>orderStatus := ''Ready''\<rparr>]\<rparr>,
          ex_order\<lparr>orderStatus := ''Ready''\<rparr>)"
  by code_simp

lemma ex_createOrder_dear:
  "snd (createOrder ex_env ex_store_dear ex_user ex_request_three)
     = Response 201 (Created ''Order created successfully'' (created_body ex_order_dear))"
  by code_simp

section \<open>Whole amounts\<close>

lemma sum_list_member_le:
  "\<forall>x\<in>set xs. 0 \<le> x \<Longrightarrow> y \<in> set xs \<Longrightarrow> y \<le> sum_list xs" for y :: int
  by (induction xs) (auto simp: sum_list_nonneg intro: add_increasing add_increasing2)

lemma whole_lines_exact:
  assumes "list_all2 (\<lambda>item (p, q). item_price item = Num (of_int p)
             \<and> item_quantity item = Num (of_int q) \<and> 0 \<le> p \<and> 0 \<le> q) its pqs"
    and "\<forall>item\<in>set its. item_subtotal item = js_mul (item_price item) (item_quantity item)"
    and "\<forall>(p, q)\<in>set pqs. p * q \<le> 9007199254740991"
  shows "map item_subtotal its = map (\<lambda>(p, q). Num (of_int (p * q))) pqs"
  using assms by (induction rule: list_all2_induct) (auto simp: js_mul_whole)

lemma whole_amounts_nonneg:
  assumes "whole_amounts its pqs" "(p, q) \<in> set pqs"
  shows "0 \<le> p \<and> 0 \<le> q"
proof -
  from assms(2) obtain k where "k < length pqs" "pqs ! k = (p, q)"
    by (auto simp: in_set_conv_nth)
  with assms(1) show ?thesis
    by (auto simp: whole_amounts_def list_all2_conv_all_nth)
qed

lemma consistent_whole_exact:
  assumes c: "totals_consistent ord" and w: "whole_amounts (items ord) pqs"
    and b: "exact_total pqs \<le> 9007199254740991"
  shows "map item_subtotal (items ord) = map (\<lambda>(p, q). Num (of_int (p * q))) pqs"
    and "subtotal ord = Num (of_int (exact_total pqs))"
    and "total ord = Num (of_int (exact_total pqs))"
proof -
  let ?xs = "map (\<lambda>(p, q). p * q) pqs"
  have nn: "\<forall>x\<in>set ?xs. 0 \<le> x"
    using whole_amounts_nonneg[OF w] by auto
  have b': "sum_list ?xs \<le> 9007199254740991"
    using b by (simp add: exact_total_def)
  have le: "\<forall>(p, q)\<in>set pqs. p * q \<le> 9007199254740991"
  proof (clarify)
    fix p q assume "(p, q) \<in> set pqs"
    then have "p * q \<in> set ?xs" by force
    from sum_list_member_le[OF nn this] b' show "p * q \<le> 9007199254740991" by simp
  qed
  have ls: "\<forall>item\<in>set (items ord).
      item_subtotal item = js_mul (item_price item) (item_quantity item)"
    using c by (simp add: totals_consistent_def list_all_iff)
  show lines: "map item_subtotal (items ord) = map (\<lambda>(p, q). Num (of_int (p * q))) pqs"
    using w[unfolded whole_amounts_def] ls le by (rule whole_lines_exact)
  have "js_sum (map item_subtotal (items ord)) = js_sum (map (\<lambda>x. Num (of_int x)) ?xs)"
    unfolding lines by (simp add: comp_def case_prod_unfold)
  also have "\<dots> = Num (of_int (sum_list ?xs))"
    using nn b' by (rule js_sum_whole)
  finally have s: "js_sum (map item_subtotal (items ord)) = Num (of_int (exact_total pqs))"
    by (simp add: exact_total_def)
  show "subtotal ord = Num (of_int (exact_total pqs))"
    using c s by (simp add: totals_consistent_def)
  show "total ord = Num (of_int (exact_total pqs))"
    using c s by (simp add: totals_consistent_def)
qed

lemma Order_save_insert_find_number:
  assumes "Order_save e s True this = Inr (s1, saved)"
  shows "find (\<lambda>d. orderNumber d = orderNumber saved) (orders s1) = Some saved"
proof -
  have "\<not> list_ex (\<lambda>d. orderNumber d = orderNumber saved) (orders s)"
    using Order_save_InrD(3,4)[OF assms] by (auto simp: list_ex_iff)
  then show ?thesis
    using Order_save_InrD(5)[OF assms] by (simp add: find_append_new)
qed

section \<open>The claims\<close>

text \<open>
  C1, as the code computes it. After every successful save of an order (on creation, on a
  status transition, on a payment transition) every line's stored subtotal is the product
  of its unit price and its quantity in double-precision arithmetic (the exact product
  rounded to the nearest double), the order's subtotal and total are both the sum of the
  lines' subtotals, added from the left in the same arithmetic, and the total equals the
  subtotal; the order the store then holds under that id is the saved one. On a
  transition this is for an order none of whose lines has the product NaN (an infinite
  quantity at price 0), as is every order that createOrder stores. When the prices and
  the quantities are whole numbers, none negative, with an exact total of at most
  9007199254740991, the stored subtotals and totals are the exact products and their exact
  sum. Beyond that they need not be: three items at 9007199254740991 are stored with the
  subtotal 27021597764222972.
\<close>

theorem C1_totals_after_save:
  "(createOrder e s u req = (s', Response 201 (Created m co)) \<longrightarrow>
      (\<exists>ord. find (\<lambda>d. order_id d = co_id co) (orders s') = Some ord
         \<and> totals_consistent ord \<and> products_defined ord
         \<and> co_total co = total ord \<and> co_items co = items ord))
   \<and> (setOrderStatus e2 s2 role2 p2 st2 = (s2', Response 200 (Updated m2 ord2))
        \<and> products_defined ord2 \<longrightarrow>
      find (\<lambda>d. order_id d = order_id ord2) (orders s2') = Some ord2 \<and> totals_consistent ord2)
   \<and> (setPaymentStatus e3 s3 role3 p3 ps3 rc3 = (s3', Response 200 (Updated m3 ord3))
        \<and> products_defined ord3 \<longrightarrow>
      find (\<lambda>d. order_id d = order_id ord3) (orders s3') = Some ord3 \<and> totals_consistent ord3)
   \<and> (Order_save e4 s4 isNew this = Inr (s4', saved) \<and> products_defined this \<longrightarrow>
      totals_consistent saved)
   \<and> (totals_consistent ord5 \<and> whole_amounts (items ord5) pqs
        \<and> exact_total pqs \<le> 9007199254740991 \<longrightarrow>
      map item_subtotal (items ord5) = map (\<lambda>(p, q). Num (of_int (p * q))) pqs
      \<and> subtotal ord5 = Num (of_int (exact_total pqs))
      \<and> total ord5 = Num (of_int (exact_total pqs)))"
proof -
  have p1: "\<exists>ord. find (\<lambda>d. order_id d = co_id co) (orders s') = Some ord
      \<and> totals_consistent ord \<and> products_defined ord
      \<and> co_total co = total ord \<and> co_items co = items ord"
    if a: "createOrder e s u req = (s', Response 201 (Created m co))"
  proof -
    from a obtain its cust orderItems s1 ord where
      fi: "fetch_items (menu s) [] its = Inr orderItems"
      and sv: "Order_save e s True (new_Order e cust req orderItems) = Inr (s1, ord)"
      and af: "after_save e s1 cust ord = (s', Response 201 (Created m co))"
      by - (erule createOrder_201E, blast)
    from after_save_201D(1,3)[OF af] have o: "orders s' = orders s1"
      and co: "co = created_body ord" by simp_all
    have "find (\<lambda>d. order_id d = co_id co) (orders s') = Some ord"
      using Order_save_insert_find[OF sv] by (simp add: o co created_body_def)
    moreover from fetch_items_snapshot[OF fi]
    have "list_all2 (snapshot_of (menu s)) its orderItems" by simp
    then have pd: "products_defined (new_Order e cust req orderItems)"
      using sv by (rule new_Order_products_defined)
    have "totals_consistent ord" using sv pd by (rule Order_save_consistent)
    moreover have "products_defined ord"
      using pd by (simp add: Order_save_products_defined[OF sv])
    ultimately show ?thesis
      by (auto simp: co created_body_def)
  qed
  have p2: "find (\<lambda>d. order_id d = order_id ord2) (orders s2') = Some ord2
      \<and> totals_consistent ord2"
    if a: "setOrderStatus e2 s2 role2 p2 st2 = (s2', Response 200 (Updated m2 ord2))"
      and pd: "products_defined ord2"
  proof -
    from a obtain ord s1 ord1 where
      f: "findById order_id (orders s2) p2 = Inr (Some ord)"
      and sv: "Order_save e2 s2 False (ord\<lparr>orderStatus := template st2\<rparr>) = Inr (s1, ord1)"
      and n: "Notification_create e2 s1 (emoji_package @ '' Order Status Updated'')
         (statusUpdated_message e2 ord1 st2) ''info'' = Inr s2'"
      and b: "Updated m2 ord2 = Updated ''Order status updated'' ord1"
      by - (erule setOrderStatus_200E, blast)
    from findById_SomeD[OF f]
    have "find (\<lambda>d. order_id d = order_id (ord\<lparr>orderStatus := template st2\<rparr>)) (orders s2)
        = Some ord"
      by auto
    from Order_save_update_find[OF sv this] Notification_create_InrD[OF n] b
    have "find (\<lambda>d. order_id d = order_id ord2) (orders s2') = Some ord2" by simp
    moreover have "products_defined (ord\<lparr>orderStatus := template st2\<rparr>)"
      using pd b by (simp add: Order_save_products_defined[OF sv])
    then have "totals_consistent ord2" using Order_save_consistent[OF sv] b by simp
    ultimately show ?thesis by simp
  qed
  have p3: "find (\<lambda>d. order_id d = order_id ord3) (orders s3') = Some ord3
      \<and> totals_consistent ord3"
    if a: "setPaymentStatus e3 s3 role3 p3 ps3 rc3 = (s3', Response 200 (Updated m3 ord3))"
      and pd: "products_defined ord3"
  proof -
    from a obtain ord s1 ord1 where
      f: "findById order_id (orders s3) p3 = Inr (Some ord)"
      and sv: "Order_save e3 s3 False (payment_edit ord ps3 rc3) = Inr (s1, ord1)"
      and n: "Notification_create e3 s1
         (if ps3 = Some ''Paid'' then emoji_money @ '' Payment Received''
          else emoji_warning @ '' Payment Update'')
         (paymentUpdated_message e3 ord1 ps3)
         (if ps3 = Some ''Paid'' then ''success'' else ''warning'') = Inr s3'"
      and b: "Updated m3 ord3 = Updated ''Payment status updated'' ord1"
      by - (erule setPaymentStatus_200E, blast)
    from findById_SomeD[OF f]
    have "find (\<lambda>d. order_id d = order_id (payment_edit ord ps3 rc3)) (orders s3) = Some ord"
      by auto
    from Order_save_update_find[OF sv this] Notification_create_InrD[OF n] b
    have "find (\<lambda>d. order_id d = order_id ord3) (orders s3') = Some ord3" by simp
    moreover have "products_defined (payment_edit ord ps3 rc3)"
      using pd b by (simp add: Order_save_products_defined[OF sv])
    then have "totals_consistent ord3" using Order_save_consistent[OF sv] b by simp
    ultimately show ?thesis by simp
  qed
  have p4: "totals_consistent saved"
    if "Order_save e4 s4 isNew this = Inr (s4', saved)" "products_defined this"
    using that by (rule Order_save_consistent)
  have p5: "map item_subtotal (items ord5) = map (\<lambda>(p, q). Num (of_int (p * q))) pqs
      \<and> subtotal ord5 = Num (of_int (exact_total pqs))
      \<and> total ord5 = Num (of_int (exact_total pqs))"
    if "totals_consistent ord5" "whole_amounts (items ord5) pqs"
      "exact_total pqs \<le> 9007199254740991"
    using consistent_whole_exact[OF that] by simp
  show ?thesis
    using p1 p2 p3 p4 p5 by (intro conjI impI) blast+
qed

theorem C1_totals_after_save_counterexample:
  "snd (createOrder ex_env ex_store_dear ex_user ex_request_three)
     = Response 201 (Created ''Order created successfully'' (created_body ex_order_dear))
   \<and> orders (fst (createOrder ex_env ex_store_dear ex_user ex_request_three)) = [ex_order_dear]
   \<and> map item_price (items ex_order_dear) = [Num 9007199254740991]
   \<and> map item_quantity (items ex_order_dear) = [Num 3]
   \<and> map item_subtotal (items ex_order_dear) = [Num 27021597764222972]
   \<and> subtotal ex_order_dear = Num 27021597764222972
   \<and> total ex_order_dear = Num 27021597764222972
   \<and> Num (9007199254740991 * 3) = Num 27021597764222973
   \<and> Num 27021597764222972 \<noteq> Num 27021597764222973"
proof -
  have "orders (fst (createOrder ex_env ex_store_dear ex_user ex_request_three))
      = [ex_order_dear]"
    by code_simp
  then show ?thesis
    using ex_createOrder_dear by (simp add: ex_order_dear_def)
qed

theorem C1_totals_after_save_witness:
  "createOrder ex_env ex_store ex_user ex_request =
     (ex_store1, Response 201 (Created ''Order created successfully'' (created_body ex_order)))
   \<and> find (\<lambda>d. order_id d = co_id (created_body ex_order)) (orders ex_store1) = Some ex_order
   \<and> totals_consistent ex_order
   \<and> products_defined (ex_order\<lparr>orderStatus := ''Ready''\<rparr>)
   \<and> totals_consistent (ex_order\<lparr>orderStatus := ''Ready''\<rparr>)
   \<and> products_defined (ex_order\<lparr>paymentStatus := ''Paid'', mpesaReceipt := Some ''QGH7XK2L9P''\<rparr>)
   \<and> totals_consistent (ex_order\<lparr>paymentStatus := ''Paid'', mpesaReceipt := Some ''QGH7XK2L9P''\<rparr>)
   \<and> whole_amounts (items ex_order) [(500, 2)] \<and> exact_total [(500, 2)] = 1000
   \<and> map item_subtotal (items ex_order) = [Num 1000]
   \<and> subtotal ex_order = Num 1000 \<and> total ex_order = Num 1000"
proof -
  note w = C1_totals_after_save[where e = ex_env and s = ex_store and u = ex_user
      and req = ex_request and s' = ex_store1 and m = "''Order created successfully''"
      and co = "created_body ex_order"
      and ?e2.0 = ex_env and ?s2.0 = ex_store1 and ?role2.0 = "''manager''"
      and ?p2.0 = ex_order_id and ?st2.0 = "Some ''Ready''"
      and ?s2' = "fst (setOrderStatus ex_env ex_store1 ''manager'' ex_order_id (Some ''Ready''))"
      and ?m2.0 = "''Order status updated''" and ?ord2.0 = "ex_order\<lparr>orderStatus := ''Ready''\<rparr>"
      and ?e3.0 = ex_env and ?s3.0 = ex_store1 and ?role3.0 = "''admin''"
      and ?p3.0 = ex_order_id and ?ps3.0 = "Some ''Paid''" and ?rc3.0 = "Some ''QGH7XK2L9P''"
      and ?s3' = "fst (setPaymentStatus ex_env ex_store1 ''admin'' ex_order_id (Some ''Paid'')
             (Some ''QGH7XK2L9P''))"
      and ?m3.0 = "''Payment status updated''"
      and ?ord3.0 = "ex_order\<lparr>paymentStatus := ''Paid'', mpesaReceipt := Some ''QGH7XK2L9P''\<rparr>"
      and ?e4.0 = ex_env and ?s4.0 = ex_store1 and isNew = False
      and this = "ex_order\<lparr>orderStatus := ''Ready''\<rparr>"
      and ?s4' = "ex_store1\<lparr>orders := [ex_order\<lparr>orderStatus := ''Ready''\<rparr>]\<rparr>"
      and saved = "ex_order\<lparr>orderStatus := ''Ready''\<rparr>"
      and ?ord5.0 = ex_order and pqs = "[(500, 2)]"]
  have pd: "products_defined (ex_order\<lparr>orderStatus := ''Ready''\<rparr>)"
    "products_defined (ex_order\<lparr>paymentStatus := ''Paid'', mpesaReceipt := Some ''QGH7XK2L9P''\<rparr>)"
    by code_simp+
  have wa: "whole_amounts (items ex_order) [(500, 2)]"
    by (simp add: whole_amounts_def ex_order_def)
  have et: "exact_total [(500, 2)] = 1000" "exact_total [(500, 2)] \<le> 9007199254740991"
    by (simp_all add: exact_total_def)
  from w ex_createOrder obtain ord where
    "find (\<lambda>d. order_id d = co_id (created_body ex_order)) (orders ex_store1) = Some ord"
    "totals_consistent ord" by blast
  moreover have f: "find (\<lambda>d. order_id d = co_id (created_body ex_order)) (orders ex_store1)
      = Some ex_order"
    by (simp add: ex_store1_orders created_body_def ex_order_def)
  ultimately have c: "totals_consistent ex_order" by simp
  have c2: "totals_consistent (ex_order\<lparr>orderStatus := ''Ready''\<rparr>)"
    using w ex_setOrderStatus pd(1) by blast
  have c3: "totals_consistent
      (ex_order\<lparr>paymentStatus := ''Paid'', mpesaReceipt := Some ''QGH7XK2L9P''\<rparr>)"
    using w ex_setPaymentStatus pd(2) by blast
  have c4: "totals_consistent (ex_order\<lparr>orderStatus := ''Ready''\<rparr>)"
    using w ex_Order_save pd(1) by blast
  from w c wa et(2)
  have "map item_subtotal (items ex_order) = map (\<lambda>(p, q). Num (of_int (p * q))) [(500, 2)]
      \<and> subtotal ex_order = Num (of_int (exact_total [(500, 2)]))
      \<and> total ex_order = Num (of_int (exact_total [(500, 2)]))"
    by blast
  then have x: "map item_subtotal (items ex_order) = [Num 1000]"
    "subtotal ex_order = Num 1000" "total ex_order = Num 1000"
    by (simp_all add: et(1))
  show ?thesis using ex_createOrder f c c2 c3 pd wa et(1) x by simp
qed

text \<open>
  C2. An order persisted when the store holds n orders gets the number made of ORD, the
  two-digit year, month and day of the current date, and n + 1 padded with zeros to four
  digits (for a date from the year 10 on).
\<close>

theorem C2_orderNumber_format:
  assumes "10 \<le> getFullYear (now e)" "getMonth (now e) \<le> 11" "getDate (now e) \<le> 31"
  shows "(falsy (orderNumber this) \<and> Order_save e s isNew this = Inr (s1, saved) \<longrightarrow>
            orderNumber saved = Some (spec_orderNumber (now e) (length (orders s))))
      \<and> (createOrder e s u req = (s', Response 201 (Created m co)) \<longrightarrow>
            co_orderNumber co = Some (spec_orderNumber (now e) (length (orders s)))
            \<and> (\<exists>ord. orders s' = orders s @ [ord]
                  \<and> orderNumber ord = Some (spec_orderNumber (now e) (length (orders s)))))"
proof -
  note g = generateOrderNumber_spec[OF assms]
  have p1: "orderNumber saved = Some (spec_orderNumber (now e) (length (orders s)))"
    if "falsy (orderNumber this)" "Order_save e s isNew this = Inr (s1, saved)"
    using Order_save_orderNumber[OF that(2)] that(1) by (simp add: g)
  have p2: "co_orderNumber co = Some (spec_orderNumber (now e) (length (orders s)))
      \<and> (\<exists>ord. orders s' = orders s @ [ord]
            \<and> orderNumber ord = Some (spec_orderNumber (now e) (length (orders s))))"
    if a: "createOrder e s u req = (s', Response 201 (Created m co))"
  proof -
    from a obtain cust orderItems s1 ord where
      sv: "Order_save e s True (new_Order e cust req orderItems) = Inr (s1, ord)"
      and af: "after_save e s1 cust ord = (s', Response 201 (Created m co))"
      by - (erule createOrder_201E, blast)
    from after_save_201D(1,3)[OF af] have o: "orders s' = orders s1"
      and co: "co = created_body ord" by simp_all
    have n: "orderNumber ord = Some (spec_orderNumber (now e) (length (orders s)))"
      using Order_save_orderNumber[OF sv] by (simp add: g falsy_def)
    have "orders s1 = orders s @ [ord]"
      using Order_save_InrD(5)[OF sv] by simp
    with n o co show ?thesis by (simp add: created_body_def)
  qed
  show ?thesis using p1 p2 by (intro conjI impI) (simp_all)
qed

theorem C2_orderNumber_format_witness:
  "10 \<le> getFullYear (now ex_env) \<and> getMonth (now ex_env) \<le> 11 \<and> getDate (now ex_env) \<le> 31
   \<and> falsy (orderNumber (ex_order\<lparr>orderNumber := None\<rparr>))
   \<and> Order_save ex_env ex_store True (ex_order\<lparr>orderNumber := None\<rparr>)
        = Inr (ex_store\<lparr>orders := [ex_order]\<rparr>, ex_order)
   \<and> createOrder ex_env ex_store ex_user ex_request =
       (ex_store1, Response 201 (Created ''Order created successfully'' (created_body ex_order)))
   \<and> orderNumber ex_order = Some (spec_orderNumber (now ex_env) (length (orders ex_store)))
   \<and> co_orderNumber (created_body ex_order) = Some ''ORD2611020001''"
proof -
  have d: "10 \<le> getFullYear (now ex_env)" "getMonth (now ex_env) \<le> 11"
    "getDate (now ex_env) \<le> 31"
    by (simp_all add: ex_env_def ex_date_def)
  have f: "falsy (orderNumber (ex_order\<lparr>orderNumber := None\<rparr>))"
    by (simp add: falsy_def)
  have sv: "Order_save ex_env ex_store True (ex_order\<lparr>orderNumber := None\<rparr>)
        = Inr (ex_store\<lparr>orders := [ex_order]\<rparr>, ex_order)"
    by code_simp
  have n: "co_orderNumber (created_body ex_order) = Some ''ORD2611020001''"
    by (simp add: created_body_def ex_order_def)
  from C2_orderNumber_format[OF d, where this = "ex_order\<lparr>orderNumber := None\<rparr>"
      and s = ex_store and isNew = True and ?s1.0 = "ex_store\<lparr>orders := [ex_order]\<rparr>"
      and saved = ex_order and u = ex_user and req = ex_request and s' = ex_store1
      and m = "''Order created successfully''" and co = "created_body ex_order"]
    f sv ex_createOrder
  have "orderNumber ex_order = Some (spec_orderNumber (now ex_env) (length (orders ex_store)))"
    by blast
  with d f sv ex_createOrder n show ?thesis by simp
qed

text \<open>
  C3. An order gets its number before its first persist and keeps it: every save leaves an
  order with a number, a save of an order that has a number leaves the number as it is,
  and in a store whose orders all have their numbers, createOrder only adds the number of
  the new order while setOrderStatus and setPaymentStatus change no order number at all.
\<close>

theorem C3_orderNumber_assigned_once:
  assumes "numbered s"
  shows "(Order_save e s isNew this = Inr (s1, saved) \<longrightarrow>
            \<not> falsy (orderNumber saved)
            \<and> (\<not> falsy (orderNumber this) \<longrightarrow> orderNumber saved = orderNumber this))
      \<and> numbered (fst (createOrder e s u req))
      \<and> (map orderNumber (orders (fst (createOrder e s u req))) = map orderNumber (orders s)
          \<or> (\<exists>n. n \<noteq> [] \<and> map orderNumber (orders (fst (createOrder e s u req)))
                                = map orderNumber (orders s) @ [Some n]))
      \<and> numbered (fst (setOrderStatus e s role p st))
      \<and> map orderNumber (orders (fst (setOrderStatus e s role p st)))
          = map orderNumber (orders s)
      \<and> numbered (fst (setPaymentStatus e s role p ps rc))
      \<and> map orderNumber (orders (fst (setPaymentStatus e s role p ps rc)))
          = map orderNumber (orders s)"
proof -
  have p1: "\<not> falsy (orderNumber saved)
      \<and> (\<not> falsy (orderNumber this) \<longrightarrow> orderNumber saved = orderNumber this)"
    if sv: "Order_save e s isNew this = Inr (s1, saved)"
    using Order_save_numbered[OF sv] Order_save_orderNumber[OF sv] by simp
  have p2: "numbered (fst (createOrder e s u req))
      \<and> (map orderNumber (orders (fst (createOrder e s u req))) = map orderNumber (orders s)
          \<or> (\<exists>n. n \<noteq> [] \<and> map orderNumber (orders (fst (createOrder e s u req)))
                                = map orderNumber (orders s) @ [Some n]))"
    using createOrder_orders[of e s u req]
  proof (elim disjE exE conjE)
    assume "fst (createOrder e s u req) = s"
    with assms show ?thesis by simp
  next
    fix cust its s1' saved'
    assume sv: "Order_save e s True (new_Order e cust req its) = Inr (s1', saved')"
      and o: "orders (fst (createOrder e s u req)) = orders s1'"
    have o1: "orders s1' = orders s @ [saved']"
      using Order_save_InrD(5)[OF sv] by simp
    have fresh: "order_id saved' \<notin> order_id ` set (orders s)"
      using Order_save_InrD(4)[OF sv] by (auto simp: list_ex_iff)
    from Order_save_numbered[OF sv] obtain n where n: "orderNumber saved' = Some n" "n \<noteq> []"
      by (auto simp: falsy_def split: option.splits)
    have "numbered (fst (createOrder e s u req))"
      using assms fresh n by (simp add: numbered_def o o1 falsy_def)
    moreover have "map orderNumber (orders (fst (createOrder e s u req)))
        = map orderNumber (orders s) @ [Some n]"
      using n by (simp add: o o1)
    ultimately show ?thesis using n(2) by blast
  qed
  have p3: "numbered (fst (setOrderStatus e s role p st))
      \<and> map orderNumber (orders (fst (setOrderStatus e s role p st)))
          = map orderNumber (orders s)"
    using setOrderStatus_orders[of e s role p st]
  proof (elim disjE exE conjE)
    assume "fst (setOrderStatus e s role p st) = s"
    with assms show ?thesis by simp
  next
    fix ord s1' saved'
    assume f: "findById order_id (orders s) p = Inr (Some ord)"
      and sv: "Order_save e s False (ord\<lparr>orderStatus := template st\<rparr>) = Inr (s1', saved')"
      and o: "orders (fst (setOrderStatus e s role p st)) = orders s1'"
    from update_keeps_columns[OF assms f sv] assms
    show ?thesis by (simp add: numbered_def o)
  qed
  have p4: "numbered (fst (setPaymentStatus e s role p ps rc))
      \<and> map orderNumber (orders (fst (setPaymentStatus e s role p ps rc)))
          = map orderNumber (orders s)"
    using setPaymentStatus_orders[of e s role p ps rc]
  proof (elim disjE exE conjE)
    assume "fst (setPaymentStatus e s role p ps rc) = s"
    with assms show ?thesis by simp
  next
    fix ord s1' saved'
    assume f: "findById order_id (orders s) p = Inr (Some ord)"
      and sv: "Order_save e s False (payment_edit ord ps rc) = Inr (s1', saved')"
      and o: "orders (fst (setPaymentStatus e s role p ps rc)) = orders s1'"
    from update_keeps_columns[OF assms f sv] assms
    show ?thesis by (simp add: numbered_def o)
  qed
  show ?thesis using p1 p2 p3 p4 by (intro conjI impI) simp_all
qed


theorem C3_orderNumber_assigned_once_witness:
  "numbered ex_store1
   \<and> Order_save ex_env ex_store1 False (ex_order\<lparr>orderStatus := ''Ready''\<rparr>) =
       Inr (ex_store1\<lparr>orders := [ex_order\<lparr>orderStatus := ''Ready''\<rparr>]\<rparr>,
            ex_order\<lparr>orderStatus := ''Ready''\<rparr>)
   \<and> \<not> falsy (orderNumber ex_order)
   \<and> map orderNumber
        (orders (fst (setOrderStatus ex_env ex_store1 ''manager'' ex_order_id (Some ''Ready''))))
       = [Some ''ORD2611020001'']
   \<and> map orderNumber
        (orders (fst (setPaymentStatus ex_env ex_store1 ''admin'' ex_order_id (Some ''Paid'')
           None)))
       = [Some ''ORD2611020001'']
   \<and> numbered (fst (createOrder ex_env ex_store1 ex_user ex_request))"
proof -
  have nb: "numbered ex_store1"
    by (simp add: numbered_def ex_store1_def ex_order_def falsy_def)
  have n: "orderNumber ex_order = Some ''ORD2611020001''"
    by (simp add: ex_order_def)
  note w = C3_orderNumber_assigned_once[OF nb, where e = ex_env and isNew = False
      and this = "ex_order\<lparr>orderStatus := ''Ready''\<rparr>"
      and ?s1.0 = "ex_store1\<lparr>orders := [ex_order\<lparr>orderStatus := ''Ready''\<rparr>]\<rparr>"
      and saved = "ex_order\<lparr>orderStatus := ''Ready''\<rparr>"
      and role = "''manager''" and p = ex_order_id and st = "Some ''Ready''"
      and u = ex_user and req = ex_request and ps = "Some ''Paid''" and rc = None]
  have "\<not> falsy (orderNumber ex_order)"
    using w ex_Order_save by simp
  moreover have "map orderNumber
        (orders (fst (setOrderStatus ex_env ex_store1 ''manager'' ex_order_id (Some ''Ready''))))
       = [Some ''ORD2611020001'']"
    using w by (simp add: ex_store1_orders n)
  moreover have "numbered (fst (createOrder ex_env ex_store1 ex_user ex_request))"
    using w by simp
  moreover have "map orderNumber
        (orders (fst (setPaymentStatus ex_env ex_store1 ''admin'' ex_order_id (Some ''Paid'')
           None)))
       = [Some ''ORD2611020001'']"
    using C3_orderNumber_assigned_once[OF nb, where e = ex_env and role = "''admin''"
        and p = ex_order_id and ps = "Some ''Paid''" and rc = None]
    by (simp add: ex_store1_orders n)
  ultimately show ?thesis using nb ex_Order_save by simp
qed

text \<open>
  C4. The lines of a created order are value copies of the catalog entries found at intake
  (name, unit price, and the product of price and quantity, as the code computes it, as
  subtotal), and the total is the sum of these subtotals. After a later update of a menu
  item the stored order is the same, the track route answers every request as before and
  answers the request for the order's number with the lines and the total of the order,
  and a later status change leaves the lines and the totals as they were.
\<close>

theorem C4_snapshot_pricing:
  assumes "createOrder e s u req = (s', Response 201 (Created m co))"
  shows "\<exists>its ord n.
      req_items req = Some its
      \<and> findById order_id (orders s') (Oid (co_id co)) = Inr (Some ord)
      \<and> co_items co = items ord \<and> co_total co = total ord \<and> co_orderNumber co = Some n
      \<and> list_all2 (snapshot_of (menu s)) its (items ord)
      \<and> total ord = js_sum (map item_subtotal (items ord))
      \<and> findById order_id (orders (fst (updateMenuItem s' p change))) (Oid (co_id co))
          = Inr (Some ord)
      \<and> trackOrder (fst (updateMenuItem s' p change)) k ph = trackOrder s' k ph
      \<and> (\<exists>tb. trackOrder (fst (updateMenuItem s' p change)) n None
                 = Response 200 (Tracked tb)
            \<and> tr_orderNumber tb = Some n \<and> tr_items tb = items ord \<and> tr_total tb = total ord)
      \<and> (setOrderStatus e2 (fst (updateMenuItem s' p change)) role (Oid (co_id co)) st
            = (s2, Response 200 (Updated m2 ord2)) \<longrightarrow>
          items ord2 = items ord \<and> subtotal ord2 = subtotal ord \<and> total ord2 = total ord)"
proof -
  from assms obtain its cust orderItems s1 ord where
    ri: "req_items req = Some its"
    and fi: "fetch_items (menu s) [] its = Inr orderItems"
    and sv: "Order_save e s True (new_Order e cust req orderItems) = Inr (s1, ord)"
    and af: "after_save e s1 cust ord = (s', Response 201 (Created m co))"
    by - (erule createOrder_201E, blast)
  let ?v = "pre_validate (now e) (length (orders s)) (new_Order e cust req orderItems)"
  note x = Order_save_InrD(2)[OF sv] and ps = Order_save_InrD(1)[OF sv]
  from after_save_201D(1,3)[OF af] have o: "orders s' = orders s1"
    and co: "co = created_body ord" by simp_all
  have id: "co_id co = order_id ord" by (simp add: co created_body_def)
  have fd: "findById order_id (orders s') (Oid (co_id co)) = Inr (Some ord)"
    using Order_save_insert_find[OF sv] by (simp add: findById_def o id)
  from fetch_items_snapshot[OF fi]
  have sn: "list_all2 (snapshot_of (menu s)) its orderItems" by simp
  have c: "totals_consistent ord"
    using sv new_Order_products_defined[OF sn sv] by (rule Order_save_consistent)
  have vi: "\<forall>it\<in>set orderItems. validate_item 0 it = []"
    using validate_order_lines[OF x] by (simp add: new_Order_def Let_def)
  have "items ord = map recompute_item orderItems"
    unfolding ps by (simp add: new_Order_def Let_def)
  also have "\<dots> = orderItems"
  proof (rule map_idI)
    fix it assume i: "it \<in> set orderItems"
    then obtain j where "j < length orderItems" "it = orderItems ! j"
      by (auto simp: in_set_conv_nth)
    with sn have "snapshot_of (menu s) (its ! j) it"
      by (simp add: list_all2_conv_all_nth)
    then show "recompute_item it = it"
      using vi i by (auto intro: snapshot_recompute)
  qed
  finally have it: "list_all2 (snapshot_of (menu s)) its (items ord)"
    using sn by simp
  from Order_save_numbered[OF sv] obtain n where n: "orderNumber ord = Some n"
    by (cases "orderNumber ord") (simp_all add: falsy_def)
  have "find (\<lambda>d. orderNumber d = Some n) (orders s') = Some ord"
    using Order_save_insert_find_number[OF sv] by (simp add: o n)
  then have tr: "trackOrder (fst (updateMenuItem s' p change)) n None
      = Response 200 (Tracked (tracked_body ord))"
    by (simp add: trackOrder_def falsy_def)
  have rs: "items ord2 = items ord \<and> subtotal ord2 = subtotal ord \<and> total ord2 = total ord"
    if a: "setOrderStatus e2 (fst (updateMenuItem s' p change)) role (Oid (co_id co)) st
            = (s2, Response 200 (Updated m2 ord2))"
  proof -
    from a obtain ord' s1' ord1 where
      f: "findById order_id (orders (fst (updateMenuItem s' p change))) (Oid (co_id co))
          = Inr (Some ord')"
      and sv2: "Order_save e2 (fst (updateMenuItem s' p change)) False
          (ord'\<lparr>orderStatus := template st\<rparr>) = Inr (s1', ord1)"
      and b: "Updated m2 ord2 = Updated ''Order status updated'' ord1"
      by - (erule setOrderStatus_200E, blast)
    from f fd have "ord' = ord" by simp
    with resave_keeps_totals[OF x ps _ _ _ sv2] b show ?thesis by simp
  qed
  have t: "trackOrder (fst (updateMenuItem s' p change)) k ph = trackOrder s' k ph"
    by (rule trackOrder_orders) simp
  have "req_items req = Some its
      \<and> findById order_id (orders s') (Oid (co_id co)) = Inr (Some ord)
      \<and> co_items co = items ord \<and> co_total co = total ord \<and> co_orderNumber co = Some n
      \<and> list_all2 (snapshot_of (menu s)) its (items ord)
      \<and> total ord = js_sum (map item_subtotal (items ord))
      \<and> findById order_id (orders (fst (updateMenuItem s' p change))) (Oid (co_id co))
          = Inr (Some ord)
      \<and> trackOrder (fst (updateMenuItem s' p change)) k ph = trackOrder s' k ph
      \<and> (\<exists>tb. trackOrder (fst (updateMenuItem s' p change)) n None
                 = Response 200 (Tracked tb)
            \<and> tr_orderNumber tb = Some n \<and> tr_items tb = items ord \<and> tr_total tb = total ord)
      \<and> (setOrderStatus e2 (fst (updateMenuItem s' p change)) role (Oid (co_id co)) st
            = (s2, Response 200 (Updated m2 ord2)) \<longrightarrow>
          items ord2 = items ord \<and> subtotal ord2 = subtotal ord \<and> total ord2 = total ord)"
    using ri fd it c rs t tr n
    by (simp add: co created_body_def tracked_body_def totals_consistent_def)
  then show ?thesis by blast
qed

theorem C4_snapshot_pricing_witness:
  "createOrder ex_env ex_store ex_user ex_request =
     (ex_store1, Response 201 (Created ''Order created successfully'' (created_body ex_order)))
   \<and> map menu_price (menu ex_store) = [Num 500]
   \<and> map menu_price (menu (fst (updateMenuItem ex_store1 ex_menu_param ex_change))) = [Num 800]
   \<and> map menu_name (menu (fst (updateMenuItem ex_store1 ex_menu_param ex_change)))
       = [''Chapati Special'']
   \<and> findById order_id (orders (fst (updateMenuItem ex_store1 ex_menu_param ex_change)))
        ex_order_id = Inr (Some ex_order)
   \<and> map item_price (items ex_order) = [Num 500] \<and> total ex_order = Num 1000
   \<and> trackOrder (fst (updateMenuItem ex_store1 ex_menu_param ex_change)) ''ORD2611020001'' None
       = Response 200 (Tracked (tracked_body ex_order))
   \<and> map item_price (tr_items (tracked_body ex_order)) = [Num 500]
   \<and> map item_name (tr_items (tracked_body ex_order)) = [''Chapati'']
   \<and> tr_total (tracked_body ex_order) = Num 1000
   \<and> snd (setOrderStatus ex_env (fst (updateMenuItem ex_store1 ex_menu_param ex_change))
        ''manager'' ex_order_id (Some ''Ready''))
       = Response 200 (Updated ''Order status updated'' (ex_order\<lparr>orderStatus := ''Ready''\<rparr>))
   \<and> total (ex_order\<lparr>orderStatus := ''Ready''\<rparr>) = Num 1000"
proof -
  let ?s = "fst (updateMenuItem ex_store1 ex_menu_param ex_change)"
  have id: "Oid (co_id (created_body ex_order)) = ex_order_id"
    by (simp add: created_body_def ex_order_def ex_order_id_def)
  have f1: "findById order_id (orders ex_store1) ex_order_id = Inr (Some ex_order)"
    by (simp add: findById_def ex_store1_orders ex_order_id_def ex_order_def)
  have nm: "co_orderNumber (created_body ex_order) = Some ''ORD2611020001''"
    by (simp add: created_body_def ex_order_def)
  have r: "snd (setOrderStatus ex_env ?s ''manager'' ex_order_id (Some ''Ready''))
       = Response 200 (Updated ''Order status updated'' (ex_order\<lparr>orderStatus := ''Ready''\<rparr>))"
    by code_simp
  then have r': "setOrderStatus ex_env ?s ''manager'' ex_order_id (Some ''Ready'')
       = (fst (setOrderStatus ex_env ?s ''manager'' ex_order_id (Some ''Ready'')),
          Response 200 (Updated ''Order status updated'' (ex_order\<lparr>orderStatus := ''Ready''\<rparr>)))"
    by (simp add: prod_eq_iff)
  from C4_snapshot_pricing[OF ex_createOrder, unfolded id, where p = ex_menu_param
      and change = ex_change and ?e2.0 = ex_env and role = "''manager''"
      and st = "Some ''Ready''"
      and ?s2.0 = "fst (setOrderStatus ex_env ?s ''manager'' ex_order_id (Some ''Ready''))"
      and ?m2.0 = "''Order status updated''" and ?ord2.0 = "ex_order\<lparr>orderStatus := ''Ready''\<rparr>"]
  obtain its ord n tb where
    a: "findById order_id (orders ex_store1) ex_order_id = Inr (Some ord)"
    and b: "findById order_id (orders ?s) ex_order_id = Inr (Some ord)"
    and n: "co_orderNumber (created_body ex_order) = Some n"
    and tr: "trackOrder ?s n None = Response 200 (Tracked tb)"
      "tr_items tb = items ord" "tr_total tb = total ord"
    and c: "setOrderStatus ex_env ?s ''manager'' ex_order_id (Some ''Ready'')
            = (fst (setOrderStatus ex_env ?s ''manager'' ex_order_id (Some ''Ready'')),
               Response 200 (Updated ''Order status updated''
                 (ex_order\<lparr>orderStatus := ''Ready''\<rparr>))) \<longrightarrow>
          total (ex_order\<lparr>orderStatus := ''Ready''\<rparr>) = total ord"
    by blast
  from a f1 have o: "ord = ex_order" by simp
  from n nm have n': "n = ''ORD2611020001''" by simp
  have tk: "trackOrder ?s ''ORD2611020001'' None = Response 200 (Tracked (tracked_body ex_order))"
    by code_simp
  have t: "total ex_order = Num 1000" "map item_price (items ex_order) = [Num 500]"
    "map item_name (items ex_order) = [''Chapati'']"
    by (simp_all add: ex_order_def)
  have m: "map menu_price (menu ex_store) = [Num 500]"
    "map menu_price (menu ?s) = [Num 800]" "map menu_name (menu ?s) = [''Chapati Special'']"
    by code_simp+
  from tr tk have "tb = tracked_body ex_order" by (simp add: n')
  with tr(2,3) have "tr_items (tracked_body ex_order) = items ex_order"
    "tr_total (tracked_body ex_order) = total ex_order" by (simp_all add: o)
  with b c r' o t m r tk ex_createOrder show ?thesis by simp
qed

text \<open>
  C5, as the handlers have it. The notification is created inside the handler's
  \<open>try\<close>: when every write of an order operation succeeds and the notification is
  created, the caller gets the success response; when the creation of the notification
  throws instead, the writes stay as they are (only the notification is missing) and the
  caller gets the error response of the \<open>catch\<close>.
\<close>

theorem C5_notification_failure_fails_response:
  "(createOrder (e\<lparr>notification_error := None\<rparr>) s u req = (s', Response 201 b) \<longrightarrow>
      createOrder (e\<lparr>notification_error := Some err\<rparr>) s u req
        = (s'\<lparr>notifications := notifications s\<rparr>, createOrder_catch err)
      \<and> (status (createOrder_catch err) = 400 \<or> status (createOrder_catch err) = 500))
   \<and> (setOrderStatus (e2\<lparr>notification_error := None\<rparr>) s2 role2 p2 st2
         = (s2', Response 200 b2) \<longrightarrow>
      setOrderStatus (e2\<lparr>notification_error := Some err2\<rparr>) s2 role2 p2 st2
        = (s2'\<lparr>notifications := notifications s2\<rparr>, Response 500 (ErrorMessage err2)))
   \<and> (setPaymentStatus (e3\<lparr>notification_error := None\<rparr>) s3 role3 p3 ps3 rc3
         = (s3', Response 200 b3) \<longrightarrow>
      setPaymentStatus (e3\<lparr>notification_error := Some err3\<rparr>) s3 role3 p3 ps3 rc3
        = (s3'\<lparr>notifications := notifications s3\<rparr>, Response 500 (ErrorMessage err3)))"
proof -
  have p1: "createOrder (e\<lparr>notification_error := Some err\<rparr>) s u req
        = (s'\<lparr>notifications := notifications s\<rparr>, createOrder_catch err)"
    if a: "createOrder (e\<lparr>notification_error := None\<rparr>) s u req = (s', Response 201 b)"
  proof -
    let ?e0 = "e\<lparr>notification_error := None\<rparr>" and ?e1 = "e\<lparr>notification_error := Some err\<rparr>"
    from a obtain its cust orderItems s1 ord where
      ri: "req_items req = Some its" "its \<noteq> []"
      and cu: "findById cust_id (customers s) u = Inr (Some cust)"
      and fi: "fetch_items (menu s) [] its = Inr orderItems"
      and dl: "\<not> (req_orderType req = Some ''delivery''
                \<and> bad_delivery_address (req_deliveryAddress req))"
      and sv: "Order_save ?e0 s True (new_Order ?e0 cust req orderItems) = Inr (s1, ord)"
      and af: "after_save ?e0 s1 cust ord = (s', Response 201 b)"
      by - (erule createOrder_201E, blast)
    from af obtain s2 where
      cs: "Customer_save ?e0 s1 (update_stats (now ?e0) cust ord) = Inr s2"
      and nc: "Notification_create ?e0 s2 (emoji_new @ '' New Order'')
          (newOrder_message ?e0 ord) ''success'' = Inr s'"
      by - (erule after_save_201E, blast)
    have "notifications s2 = notifications s"
      using Customer_save_InrD[OF cs] Order_save_notifications[OF sv] by simp
    with Notification_create_undo[OF nc] have u: "s'\<lparr>notifications := notifications s\<rparr> = s2"
      by simp
    have "after_save ?e1 s1 cust ord = (s2, createOrder_catch err)"
      using cs by (simp add: after_save_def)
    then show ?thesis
      using ri cu fi dl sv by (auto simp: createOrder_def u)
  qed
  have p2: "setOrderStatus (e2\<lparr>notification_error := Some err2\<rparr>) s2 role2 p2 st2
        = (s2'\<lparr>notifications := notifications s2\<rparr>, Response 500 (ErrorMessage err2))"
    if a: "setOrderStatus (e2\<lparr>notification_error := None\<rparr>) s2 role2 p2 st2
         = (s2', Response 200 b2)"
  proof -
    let ?e0 = "e2\<lparr>notification_error := None\<rparr>"
    from a obtain ord s1 ord1 where
      r: "staff role2" and v: "array_includes orderStatuses st2"
      and f: "findById order_id (orders s2) p2 = Inr (Some ord)"
      and sv: "Order_save ?e0 s2 False (ord\<lparr>orderStatus := template st2\<rparr>) = Inr (s1, ord1)"
      and nc: "Notification_create ?e0 s1 (emoji_package @ '' Order Status Updated'')
         (statusUpdated_message ?e0 ord1 st2) ''info'' = Inr s2'"
      by - (erule setOrderStatus_200E, blast)
    from Notification_create_undo[OF nc] Order_save_notifications[OF sv]
    have "s2'\<lparr>notifications := notifications s2\<rparr> = s1" by simp
    then show ?thesis
      using r v f sv by (simp add: setOrderStatus_def orderStatuses_def)
  qed
  have p3: "setPaymentStatus (e3\<lparr>notification_error := Some err3\<rparr>) s3 role3 p3 ps3 rc3
        = (s3'\<lparr>notifications := notifications s3\<rparr>, Response 500 (ErrorMessage err3))"
    if a: "setPaymentStatus (e3\<lparr>notification_error := None\<rparr>) s3 role3 p3 ps3 rc3
         = (s3', Response 200 b3)"
  proof -
    let ?e0 = "e3\<lparr>notification_error := None\<rparr>"
    from a obtain ord s1 ord1 where
      r: "staff role3" and v: "array_includes paymentStatuses ps3"
      and f: "findById order_id (orders s3) p3 = Inr (Some ord)"
      and sv: "Order_save ?e0 s3 False (payment_edit ord ps3 rc3) = Inr (s1, ord1)"
      and nc: "Notification_create ?e0 s1
         (if ps3 = Some ''Paid'' then emoji_money @ '' Payment Received''
          else emoji_warning @ '' Payment Update'')
         (paymentUpdated_message ?e0 ord1 ps3)
         (if ps3 = Some ''Paid'' then ''success'' else ''warning'') = Inr s3'"
      by - (erule setPaymentStatus_200E, blast)
    from Notification_create_undo[OF nc] Order_save_notifications[OF sv]
    have "s3'\<lparr>notifications := notifications s3\<rparr> = s1" by simp
    then show ?thesis
      using r v f sv by (simp add: setPaymentStatus_def paymentStatuses_def)
  qed
  show ?thesis
    using p1 p2 p3 createOrder_catch_status by (intro conjI impI) simp_all
qed

theorem C5_notification_failure_counterexample:
  "orders (fst (createOrder ex_env_down ex_store ex_user ex_request)) = [ex_order]
   \<and> snd (createOrder ex_env_down ex_store ex_user ex_request)
       = Response 500 (Failed ''Failed to create order'' StorageError)"
  by code_simp


theorem C5_notification_failure_fails_response_witness:
  "createOrder (ex_env\<lparr>notification_error := None\<rparr>) ex_store ex_user ex_request =
     (ex_store1, Response 201 (Created ''Order created successfully'' (created_body ex_order)))
   \<and> createOrder (ex_env\<lparr>notification_error := Some StorageError\<rparr>) ex_store ex_user ex_request
       = (ex_store1\<lparr>notifications := []\<rparr>,
          Response 500 (Failed ''Failed to create order'' StorageError))
   \<and> snd (setOrderStatus (ex_env\<lparr>notification_error := Some StorageError\<rparr>) ex_store1
            ''manager'' ex_order_id (Some ''Ready''))
       = Response 500 (ErrorMessage StorageError)
   \<and> snd (setPaymentStatus (ex_env\<lparr>notification_error := Some StorageError\<rparr>) ex_store1
            ''admin'' ex_order_id (Some ''Paid'') (Some ''QGH7XK2L9P''))
       = Response 500 (ErrorMessage StorageError)"
proof -
  have e0: "ex_env\<lparr>notification_error := None\<rparr> = ex_env"
    by (simp add: ex_env_def)
  note w = C5_notification_failure_fails_response[where e = ex_env and s = ex_store
      and u = ex_user and req = ex_request and s' = ex_store1
      and b = "Created ''Order created successfully'' (created_body ex_order)"
      and err = StorageError
      and ?e2.0 = ex_env and ?s2.0 = ex_store1 and ?role2.0 = "''manager''"
      and ?p2.0 = ex_order_id and ?st2.0 = "Some ''Ready''"
      and ?s2' = "fst (setOrderStatus ex_env ex_store1 ''manager'' ex_order_id (Some ''Ready''))"
      and ?b2.0 = "Updated ''Order status updated'' (ex_order\<lparr>orderStatus := ''Ready''\<rparr>)"
      and ?err2.0 = StorageError
      and ?e3.0 = ex_env and ?s3.0 = ex_store1 and ?role3.0 = "''admin''"
      and ?p3.0 = ex_order_id and ?ps3.0 = "Some ''Paid''" and ?rc3.0 = "Some ''QGH7XK2L9P''"
      and ?s3' = "fst (setPaymentStatus ex_env ex_store1 ''admin'' ex_order_id (Some ''Paid'')
             (Some ''QGH7XK2L9P''))"
      and ?b3.0 = "Updated ''Payment status updated''
        (ex_order\<lparr>paymentStatus := ''Paid'', mpesaReceipt := Some ''QGH7XK2L9P''\<rparr>)"
      and ?err3.0 = StorageError, unfolded e0]
  show ?thesis
    using w ex_createOrder ex_setOrderStatus ex_setPaymentStatus
    by (simp add: e0 createOrder_catch_def ex_store_def)
qed

text \<open>
  C6, as the handler has it. A request with a line whose menu item id (an ObjectId) is not
  in the catalog creates no order and leaves the store as it is; when the customer
  resolves and the lines before it are sound, the answer is HTTP 400, not 404, with a body
  that has a message and nothing else.
\<close>

theorem C6_unknown_menu_item:
  assumes "req_items req = Some its" "item \<in> set its"
    and "req_menuItemId item = Oid i" "find (\<lambda>d. menu_id d = i) (menu s) = None"
  shows "fst (createOrder e s u req) = s
      \<and> status (snd (createOrder e s u req)) \<noteq> 201
      \<and> (findById cust_id (customers s) u = Inr (Some c) \<and> its = pre @ item # post
            \<and> list_all (line_ok (menu s)) pre \<longrightarrow>
          (\<exists>msg. snd (createOrder e s u req) = Response 400 (Message msg)))"
proof -
  from fetch_items_unresolved[OF assms(2,3,4)] obtain resp where
    fi: "fetch_items (menu s) [] its = Inl resp" by blast
  have ne: "its \<noteq> []" using assms(2) by auto
  have r: "createOrder e s u req = (s, Response 404 (Message ''Customer not found''))
      \<or> (\<exists>err. createOrder e s u req = (s, createOrder_catch err))
      \<or> createOrder e s u req = (s, resp)"
    using assms(1) ne fi
    by (auto simp: createOrder_def split: sum.splits option.splits)
  have n201: "resp \<noteq> Response 201 b" for b
    using fi by (rule fetch_items_Inl_not_201)
  have st: "status (snd (createOrder e s u req)) \<noteq> 201"
  proof
    assume a: "status (snd (createOrder e s u req)) = 201"
    from r show False
    proof (elim disjE exE)
      assume "createOrder e s u req = (s, Response 404 (Message ''Customer not found''))"
      with a show False by simp
    next
      fix err assume "createOrder e s u req = (s, createOrder_catch err)"
      with a createOrder_catch_status[of err] show False by simp
    next
      assume "createOrder e s u req = (s, resp)"
      with a n201[of "json resp"] show False by (cases resp) simp
    qed
  qed
  have ex: "\<exists>msg. snd (createOrder e s u req) = Response 400 (Message msg)"
    if c: "findById cust_id (customers s) u = Inr (Some c)"
      and sp: "its = pre @ item # post" and ok: "list_all (line_ok (menu s)) pre"
  proof -
    from fetch_items_prefix[OF ok, of "[]" "item # post"] obtain acc' where
      "fetch_items (menu s) [] its = fetch_items (menu s) acc' (item # post)"
      by (auto simp: sp)
    then have "\<exists>msg. fetch_items (menu s) [] its = Inl (Response 400 (Message msg))"
      using assms(3,4) by (simp add: findById_def falsy_id_def)
    then show ?thesis
      using assms(1) ne c by (auto simp: createOrder_def)
  qed
  from r have "fst (createOrder e s u req) = s" by auto
  with st ex show ?thesis by blast
qed

theorem C6_unknown_menu_item_counterexample:
  "snd (createOrder ex_env ex_store ex_user ex_request_unknown)
     = Response 400 (Message ''Item with ID 66a0000000000000000000ff not found'')"
  by code_simp

theorem C6_unknown_menu_item_witness:
  "req_items ex_request_unknown
     = Some [\<lparr>req_menuItemId = Oid ''66a0000000000000000000ff'', req_quantity = Num 1\<rparr>]
   \<and> find (\<lambda>d. menu_id d = ''66a0000000000000000000ff'') (menu ex_store) = None
   \<and> findById cust_id (customers ex_store) ex_user = Inr (Some ex_customer)
   \<and> fst (createOrder ex_env ex_store ex_user ex_request_unknown) = ex_store
   \<and> status (snd (createOrder ex_env ex_store ex_user ex_request_unknown)) = 400"
proof -
  let ?item = "\<lparr>req_menuItemId = Oid ''66a0000000000000000000ff'', req_quantity = Num 1\<rparr>"
  have a: "req_items ex_request_unknown = Some [?item]"
    by (simp add: ex_request_unknown_def)
  have b: "?item \<in> set [?item]" by simp
  have c: "req_menuItemId ?item = Oid ''66a0000000000000000000ff''" by simp
  have d: "find (\<lambda>d. menu_id d = ''66a0000000000000000000ff'') (menu ex_store) = None"
    by (simp add: ex_store_def ex_menu_item_def)
  have f: "findById cust_id (customers ex_store) ex_user = Inr (Some ex_customer)"
    by (simp add: findById_def ex_user_def ex_store_def ex_customer_def)
  have g: "[?item] = [] @ ?item # []" "list_all (line_ok (menu ex_store)) []" by simp_all
  from C6_unknown_menu_item[OF a b c d, of ex_env ex_user ex_customer "[]" "[]"] f g
  have "fst (createOrder ex_env ex_store ex_user ex_request_unknown) = ex_store"
    and "\<exists>msg. snd (createOrder ex_env ex_store ex_user ex_request_unknown)
          = Response 400 (Message msg)"
    by blast+
  then show ?thesis using a d f by auto
qed

text \<open>
  C7. A request whose \<open>items\<close> is absent or empty is answered with HTTP 400 and changes
  nothing: the store after it (orders, notifications, customers) is the store before it.
\<close>

theorem C7_empty_items_rejected:
  assumes "req_items req = None \<or> req_items req = Some []"
  shows "createOrder e s u req
      = (s, Response 400 (Message ''Order must contain at least one item''))"
  using assms by (auto simp: createOrder_def)

theorem C7_empty_items_rejected_witness:
  "req_items (ex_request\<lparr>req_items := Some []\<rparr>) = Some []
   \<and> createOrder ex_env ex_store1 ex_user (ex_request\<lparr>req_items := Some []\<rparr>)
       = (ex_store1, Response 400 (Message ''Order must contain at least one item''))
   \<and> req_items (ex_request\<lparr>req_items := None\<rparr>) = None
   \<and> createOrder ex_env ex_store1 ex_user (ex_request\<lparr>req_items := None\<rparr>)
       = (ex_store1, Response 400 (Message ''Order must contain at least one item''))"
  using C7_empty_items_rejected[of "ex_request\<lparr>req_items := Some []\<rparr>" ex_env ex_store1 ex_user]
    C7_empty_items_rejected[of "ex_request\<lparr>req_items := None\<rparr>" ex_env ex_store1 ex_user]
  by simp

text \<open>
  C8. For a staff caller, setOrderStatus answers any value outside the eight order
  statuses with HTTP 400 and changes nothing. Any of the eight is accepted whatever the
  order's current status is: in a store of valid orders, when the order is found and the
  notification can be written, the answer is HTTP 200, the stored order has the new
  status, and one notification of type info is added.
\<close>

theorem C8_setOrderStatus_any_transition:
  "length orderStatuses = 8
   \<and> (staff role \<and> \<not> array_includes orderStatuses st \<longrightarrow>
        setOrderStatus e s role p st = (s, Response 400 (Message ''Invalid status'')))
   \<and> (staff role2 \<and> v \<in> set orderStatuses \<and> stored_ok s2
        \<and> findById order_id (orders s2) p2 = Inr (Some ord) \<and> notification_error e2 = None \<longrightarrow>
        (\<exists>s' ord'. setOrderStatus e2 s2 role2 p2 (Some v)
              = (s', Response 200 (Updated ''Order status updated'' ord'))
           \<and> orderStatus ord' = v
           \<and> findById order_id (orders s') p2 = Inr (Some ord')
           \<and> notifications s' = notifications s2 @
                [\<lparr>notif_title = emoji_package @ '' Order Status Updated'',
                  notif_message = statusUpdated_message e2 ord' (Some v),
                  notif_type = ''info'', notif_read = False, notif_createdAt = now e2\<rparr>]))"
proof -
  have p1: "setOrderStatus e s role p st = (s, Response 400 (Message ''Invalid status''))"
    if "staff role" "\<not> array_includes orderStatuses st"
    using that by (simp add: setOrderStatus_def orderStatuses_def)
  have p2: "\<exists>s' ord'. setOrderStatus e2 s2 role2 p2 (Some v)
              = (s', Response 200 (Updated ''Order status updated'' ord'))
           \<and> orderStatus ord' = v
           \<and> findById order_id (orders s') p2 = Inr (Some ord')
           \<and> notifications s' = notifications s2 @
                [\<lparr>notif_title = emoji_package @ '' Order Status Updated'',
                  notif_message = statusUpdated_message e2 ord' (Some v),
                  notif_type = ''info'', notif_read = False, notif_createdAt = now e2\<rparr>]"
    if r: "staff role2" and v: "v \<in> set orderStatuses" and ok: "stored_ok s2"
      and f: "findById order_id (orders s2) p2 = Inr (Some ord)"
      and ne: "notification_error e2 = None"
  proof -
    let ?edit = "ord\<lparr>orderStatus := v\<rparr>"
    let ?saved = "pre_save (now e2) ?edit"
    let ?s1 = "s2\<lparr>orders := map (\<lambda>d. if order_id d = order_id ?edit then ?saved else d)
        (orders s2)\<rparr>"
    from findById_SomeD[OF f] obtain i where
      i: "p2 = Oid i" "find (\<lambda>d. order_id d = i) (orders s2) = Some ord" "order_id ord = i"
      by blast
    then have fd: "find (\<lambda>d. order_id d = order_id ?edit) (orders s2) = Some ord" by simp
    have "ord \<in> set (orders s2)" using i(2) by (auto simp: find_Some_iff)
    with ok have "validate_order ord = []" by (auto simp: stored_ok_def list_all_iff)
    then have val: "validate_order ?edit = []" using v by (rule validate_order_status)
    have sv: "Order_save e2 s2 False ?edit = Inr (?s1, ?saved)"
      using Order_save_update_succeeds[OF ok fd _ val] by simp
    let ?n = "\<lparr>notif_title = emoji_package @ '' Order Status Updated'',
                  notif_message = statusUpdated_message e2 ?saved (Some v),
                  notif_type = ''info'', notif_read = False, notif_createdAt = now e2\<rparr>"
    let ?s' = "?s1\<lparr>notifications := notifications ?s1 @ [?n]\<rparr>"
    have nc: "Notification_create e2 ?s1 (emoji_package @ '' Order Status Updated'')
        (statusUpdated_message e2 ?saved (Some v)) ''info'' = Inr ?s'"
      using ne by (simp add: Notification_create_def notificationTypes_def)
    have "array_includes orderStatuses (Some v)" using v by (simp add: array_includes_def)
    then have res: "setOrderStatus e2 s2 role2 p2 (Some v)
        = (?s', Response 200 (Updated ''Order status updated'' ?saved))"
      using r f sv nc by (simp add: setOrderStatus_def orderStatuses_def template_def)
    have "find (\<lambda>d. order_id d = order_id ?saved) (orders ?s1) = Some ?saved"
      using sv fd by (rule Order_save_update_find)
    then have "findById order_id (orders ?s') p2 = Inr (Some ?saved)"
      using i by (simp add: findById_def)
    with res show ?thesis by simp
  qed
  show ?thesis
    using p1 p2 by (intro conjI impI) (simp_all add: orderStatuses_def)
qed

theorem C8_setOrderStatus_any_transition_witness:
  "staff ''manager'' \<and> \<not> array_includes orderStatuses (Some ''Shipped'')
   \<and> setOrderStatus ex_env ex_store1 ''manager'' ex_order_id (Some ''Shipped'')
       = (ex_store1, Response 400 (Message ''Invalid status''))
   \<and> staff ''admin'' \<and> ''Pending'' \<in> set orderStatuses \<and> stored_ok ex_store_delivered
   \<and> findById order_id (orders ex_store_delivered) ex_order_id
       = Inr (Some (ex_order\<lparr>orderStatus := ''Delivered''\<rparr>))
   \<and> notification_error ex_env = None
   \<and> (\<exists>s' ord'. setOrderStatus ex_env ex_store_delivered ''admin'' ex_order_id (Some ''Pending'')
          = (s', Response 200 (Updated ''Order status updated'' ord'))
        \<and> orderStatus ord' = ''Pending''
        \<and> map notif_type (notifications s') = [''success'', ''info''])"
proof -
  have a: "staff ''manager''" "\<not> array_includes orderStatuses (Some ''Shipped'')"
    "staff ''admin''" "''Pending'' \<in> set orderStatuses"
    by (simp_all add: staff_def array_includes_def orderStatuses_def)
  have ok: "stored_ok ex_store_delivered"
    by code_simp
  have f: "findById order_id (orders ex_store_delivered) ex_order_id
       = Inr (Some (ex_order\<lparr>orderStatus := ''Delivered''\<rparr>))"
    by (simp add: findById_def ex_store_delivered_def ex_order_id_def ex_order_def)
  have ne: "notification_error ex_env = None" by (simp add: ex_env_def)
  have nt: "map notif_type (notifications ex_store_delivered) = [''success'']"
    by (simp add: ex_store_delivered_def ex_store1_def)
  note w = C8_setOrderStatus_any_transition[where role = "''manager''"
      and st = "Some ''Shipped''" and e = ex_env and s = ex_store1 and p = ex_order_id
      and ?role2.0 = "''admin''" and v = "''Pending''" and ?s2.0 = ex_store_delivered
      and ?p2.0 = ex_order_id and ord = "ex_order\<lparr>orderStatus := ''Delivered''\<rparr>"
      and ?e2.0 = ex_env]
  from w a have r1: "setOrderStatus ex_env ex_store1 ''manager'' ex_order_id (Some ''Shipped'')
       = (ex_store1, Response 400 (Message ''Invalid status''))" by blast
  from w a ok f ne obtain s' ord' where
    "setOrderStatus ex_env ex_store_delivered ''admin'' ex_order_id (Some ''Pending'')
          = (s', Response 200 (Updated ''Order status updated'' ord'))"
    "orderStatus ord' = ''Pending''"
    "notifications s' = notifications ex_store_delivered @
                [\<lparr>notif_title = emoji_package @ '' Order Status Updated'',
                  notif_message = statusUpdated_message ex_env ord' (Some ''Pending''),
                  notif_type = ''info'', notif_read = False, notif_createdAt = now ex_env\<rparr>]"
    by blast
  then have "\<exists>s' ord'. setOrderStatus ex_env ex_store_delivered ''admin'' ex_order_id
            (Some ''Pending'')
          = (s', Response 200 (Updated ''Order status updated'' ord'))
        \<and> orderStatus ord' = ''Pending''
        \<and> map notif_type (notifications s') = [''success'', ''info'']"
    using nt by auto
  with a ok f ne r1 show ?thesis by simp
qed

text \<open>
  C9, as the handler has it. When the track request finds the order and gives a phone
  that is not empty and differs from the order's stored phone, the answer is HTTP 403 with
  a body that has a message and nothing else. (An empty phone is not checked.)
\<close>

theorem C9_track_wrong_phone:
  assumes "find (\<lambda>d. orderNumber d = Some n) (orders s) = Some ord"
    and "ph \<noteq> []" and "ph \<noteq> customerPhone ord"
  shows "trackOrder s n (Some ph) = Response 403 (Message ''Invalid phone number for this order'')"
  using assms by (auto simp: trackOrder_def falsy_def)

theorem C9_track_wrong_phone_counterexample:
  "[] \<noteq> customerPhone ex_order
   \<and> trackOrder ex_store1 ''ORD2611020001'' (Some [])
       = Response 200 (Tracked (tracked_body ex_order))"
  by (simp add: trackOrder_def ex_store1_def ex_order_def falsy_def)

theorem C9_track_wrong_phone_witness:
  "find (\<lambda>d. orderNumber d = Some ''ORD2611020001'') (orders ex_store1) = Some ex_order
   \<and> ''0700000000'' \<noteq> customerPhone ex_order
   \<and> trackOrder ex_store1 ''ORD2611020001'' (Some ''0700000000'')
       = Response 403 (Message ''Invalid phone number for this order'')"
proof -
  have a: "find (\<lambda>d. orderNumber d = Some ''ORD2611020001'') (orders ex_store1) = Some ex_order"
    by (simp add: ex_store1_def ex_order_def)
  have b: "''0700000000'' \<noteq> []" by simp
  have c: "''0700000000'' \<noteq> customerPhone ex_order" by (simp add: ex_order_def)
  from C9_track_wrong_phone[OF a b c] a c show ?thesis by simp
qed

text \<open>
  C10. An intake that has nothing else wrong with it is accepted, and an order created
  from a request without an order type is a takeaway order, and one created from a
  request without a payment method is paid by M-PESA.
\<close>

theorem C10_request_defaults:
  "(valid_intake e s u req \<longrightarrow>
      (\<exists>s1 co1. createOrder e s u req
          = (s1, Response 201 (Created ''Order created successfully'' co1))))
   \<and> (createOrder e s u req = (s', Response 201 (Created m co)) \<longrightarrow>
      (\<exists>ord. findById order_id (orders s') (Oid (co_id co)) = Inr (Some ord)
         \<and> (req_orderType req = None \<longrightarrow>
              orderType ord = ''takeaway'' \<and> co_orderType co = ''takeaway'')
         \<and> (req_paymentMethod req = None \<longrightarrow> paymentMethod ord = ''M-PESA'')))"
proof -
  have p2: "\<exists>ord. findById order_id (orders s') (Oid (co_id co)) = Inr (Some ord)
         \<and> (req_orderType req = None \<longrightarrow>
              orderType ord = ''takeaway'' \<and> co_orderType co = ''takeaway'')
         \<and> (req_paymentMethod req = None \<longrightarrow> paymentMethod ord = ''M-PESA'')"
    if a: "createOrder e s u req = (s', Response 201 (Created m co))"
  proof -
    from a obtain cust orderItems s1 ord where
      sv: "Order_save e s True (new_Order e cust req orderItems) = Inr (s1, ord)"
      and af: "after_save e s1 cust ord = (s', Response 201 (Created m co))"
      by - (erule createOrder_201E, blast)
    from after_save_201D(1,3)[OF af] have o: "orders s' = orders s1"
      and co: "co = created_body ord" by simp_all
    have fd: "findById order_id (orders s') (Oid (co_id co)) = Inr (Some ord)"
      using Order_save_insert_find[OF sv] by (simp add: findById_def o co created_body_def)
    have "orderType ord = or_else (req_orderType req) ''takeaway''"
      and "paymentMethod ord = or_else (req_paymentMethod req) ''M-PESA''"
      unfolding Order_save_InrD(1)[OF sv] by (simp_all add: new_Order_def Let_def)
    with fd show ?thesis
      by (auto simp: or_else_def co created_body_def)
  qed
  show ?thesis
    using p2 createOrder_succeeds[of e s u req] by (intro conjI impI) simp_all
qed

theorem C10_request_defaults_witness:
  "valid_intake ex_env ex_store ex_user ex_request
   \<and> createOrder ex_env ex_store ex_user ex_request =
       (ex_store1, Response 201 (Created ''Order created successfully'' (created_body ex_order)))
   \<and> req_orderType ex_request = None \<and> req_paymentMethod ex_request = None
   \<and> findById order_id (orders ex_store1) (Oid (co_id (created_body ex_order)))
       = Inr (Some ex_order)
   \<and> orderType ex_order = ''takeaway'' \<and> paymentMethod ex_order = ''M-PESA''"
proof -
  have v: "valid_intake ex_env ex_store ex_user ex_request"
    by code_simp
  have a: "req_orderType ex_request = None" "req_paymentMethod ex_request = None"
    by (simp_all add: ex_request_def)
  have f: "findById order_id (orders ex_store1) (Oid (co_id (created_body ex_order)))
       = Inr (Some ex_order)"
    by (simp add: findById_def ex_store1_orders created_body_def)
  note w = C10_request_defaults[where e = ex_env and s = ex_store and u = ex_user
      and req = ex_request and s' = ex_store1 and m = "''Order created successfully''"
      and co = "created_body ex_order"]
  from w v have "\<exists>s1 co1. createOrder ex_env ex_store ex_user ex_request
          = (s1, Response 201 (Created ''Order created successfully'' co1))"
    by blast
  moreover from w ex_createOrder f a
  have "orderType ex_order = ''takeaway'' \<and> paymentMethod ex_order = ''M-PESA''"
    by auto
  ultimately show ?thesis using v ex_createOrder a f by simp
qed

end
